theory Spec2Isabelle
  imports
    Main
    "HOL-Library.Word"
    "HOL-Library.Char_ord"
    "HOL-Library.List_Lexorder"
begin

unbundle bit_operations_syntax

section \<open>Bytes and text\<close>

text \<open>
  Binary buffers (\<^verbatim>\<open>char *\<close> with an explicit size) are lists of 8-bit words.
  Text that the program handles as NUL-terminated strings (legible checksums, paths)
  is a \<^typ>\<open>string\<close>.
\<close>

type_synonym byte = "8 word"

definition byte_of_char :: "char \<Rightarrow> byte" where
  "byte_of_char c = of_nat (of_char c)"

definition char_of_byte :: "byte \<Rightarrow> char" where
  "char_of_byte b = char_of (unat b)"

definition bytes_of :: "string \<Rightarrow> byte list" where
  "bytes_of s = map byte_of_char s"

definition string_of :: "byte list \<Rightarrow> string" where
  "string_of bs = map char_of_byte bs"

text \<open>
  The value of a plain \<^verbatim>\<open>char\<close> in an integer expression. On the platform the
  program is written for (FreeBSD on amd64) plain \<^verbatim>\<open>char\<close> is signed.
\<close>

definition plain_char :: "char \<Rightarrow> int" where
  "plain_char c = (if (of_char c :: int) < 128 then of_char c else of_char c - 256)"

section \<open>Checksum codec: \<^verbatim>\<open>legible_sha\<close> and \<^verbatim>\<open>illegible_sha\<close>\<close>

text \<open>One digit of \<^verbatim>\<open>printf\<close>'s \<^verbatim>\<open>%x\<close>.\<close>

definition hex_digit :: "nat \<Rightarrow> char" where
  "hex_digit n = (if n < 10 then char_of (48 + n) else char_of (87 + n))"

text \<open>\<^verbatim>\<open>snprintf(&sha[x * 2], 3, "%02x", (unsigned char)sha_buffer[x])\<close>\<close>

definition fmt_02x :: "byte \<Rightarrow> string" where
  "fmt_02x b = [hex_digit (unat b div 16), hex_digit (unat b mod 16)]"

text \<open>
  \<^verbatim>\<open>legible_sha\<close> reads the 20 bytes \<^verbatim>\<open>sha_buffer[0..19]\<close> and returns the 40
  character string.
\<close>

definition legible_sha :: "byte list \<Rightarrow> string" where
  "legible_sha sha_buffer = concat (map fmt_02x (take 20 sha_buffer))"

text \<open>
  One byte of \<^verbatim>\<open>illegible_sha\<close>:
  \<^verbatim>\<open>16 * ((unsigned char)c1 - (c1 > 58 ? 87 : 48)) + (unsigned char)c2 - (c2 > 58 ? 87 : 48)\<close>,
  computed in \<^verbatim>\<open>int\<close> and stored into a \<^verbatim>\<open>char\<close>.
\<close>

definition illegible_byte :: "char \<Rightarrow> char \<Rightarrow> byte" where
  "illegible_byte c1 c2 =
     word_of_int (16 * (of_char c1 - (if 58 < plain_char c1 then 87 else 48))
                  + of_char c2 - (if 58 < plain_char c2 then 87 else 48))"

text \<open>
  \<^verbatim>\<open>illegible_sha\<close> reads the 40 characters \<^verbatim>\<open>sha_buffer[0..39]\<close>; its callers
  pass a 40 character checksum.
\<close>

definition illegible_sha :: "string \<Rightarrow> byte list" where
  "illegible_sha sha_buffer =
     map (\<lambda>x. illegible_byte (sha_buffer ! (x * 2)) (sha_buffer ! (x * 2 + 1))) [0..<20]"

text \<open>The characters \<^verbatim>\<open>0\<close>..\<^verbatim>\<open>9\<close> and \<^verbatim>\<open>a\<close>..\<^verbatim>\<open>f\<close>.\<close>

definition lower_hex :: "char \<Rightarrow> bool" where
  "lower_hex c = ((48 \<le> (of_char c :: nat) \<and> (of_char c :: nat) \<le> 57)
                \<or> (97 \<le> (of_char c :: nat) \<and> (of_char c :: nat) \<le> 102))"




section \<open>Errors\<close>

text \<open>
  The program reports a failure by printing a message and calling \<^verbatim>\<open>exit\<close> (through
  \<^verbatim>\<open>err\<close>, \<^verbatim>\<open>errc\<close> or directly). Each such place is one value of \<open>error\<close>,
  named after the message. \<open>Undefined_behaviour\<close> stands for the places where the C code
  reads or writes outside a buffer or through a null pointer: what the program does
  there is not determined by its text.
\<close>

datatype error =
    Cannot_load_file
  | Branch_doesnt_exist
  | Local_tree_check_failed
  | No_pack_data
  | Pack_checksum_mismatch
  | Pack_version_not_supported
  | Cannot_find_ofs_delta_base
  | Cant_find_base
  | Position_overflow
  | Realloc_failed
  | Cant_find_want
  | First_object_is_not_a_commit
  | Tree_cannot_be_found
  | File_cannot_be_found
  | Cannot_create_directory
  | Symlink_failure
  | Write_file_failure
  | Cannot_rename
  | Undefined_behaviour

section \<open>Red-black trees\<close>

text \<open>
  The \<^verbatim>\<open>RB_*\<close> macros of \<^verbatim>\<open>sys/tree.h\<close> keep nodes ordered by a comparison
  function, here always \<^verbatim>\<open>strcmp\<close> on one string field. A tree is the list of its
  nodes in key order. \<^verbatim>\<open>RB_INSERT\<close> does not insert a node whose key is already in
  the tree.
\<close>

fun RB_FIND :: "('a \<Rightarrow> string) \<Rightarrow> 'a list \<Rightarrow> string \<Rightarrow> 'a option" where
  "RB_FIND key [] k = None"
| "RB_FIND key (n # t) k = (if key n = k then Some n else RB_FIND key t k)"

fun RB_INSERT :: "('a \<Rightarrow> string) \<Rightarrow> 'a list \<Rightarrow> 'a \<Rightarrow> 'a list" where
  "RB_INSERT key [] e = [e]"
| "RB_INSERT key (n # t) e =
     (if key e < key n then e # n # t
      else if key e = key n then n # t
      else n # RB_INSERT key t e)"

section \<open>The object store\<close>

text \<open>\<^verbatim>\<open>struct object_node\<close>. A null \<^verbatim>\<open>ref_delta_sha\<close> is \<open>None\<close>.\<close>

record object_node =
  sha :: string
  type :: nat
  index :: nat
  index_delta :: int
  ref_delta_sha :: "string option"
  pack_offset :: nat
  buffer :: "byte list"
  buffer_size :: nat
  data_size :: nat

text \<open>
  The part of the program state that holds objects: the array
  \<^verbatim>\<open>connection->object[0 .. connection->objects - 1]\<close> (so \<^verbatim>\<open>connection->objects\<close> is
  the length of \<open>object\<close>) and the global tree \<^verbatim>\<open>Objects\<close>, keyed by \<open>sha\<close>. Both hold
  pointers to the same nodes; a node is never changed after \<^verbatim>\<open>store_object\<close> has
  filled it, so each holds a copy here.
\<close>

record store =
  object :: "object_node list"
  Objects :: "object_node list"

definition types :: "string list" where
  "types = ['''', ''commit'', ''tree'', ''blob'', ''tag'', '''', ''ofs-delta'', ''ref-delta'']"

text \<open>\<^verbatim>\<open>printf\<close>'s \<^verbatim>\<open>%u\<close>.\<close>

function fmt_u :: "nat \<Rightarrow> string" where
  "fmt_u n = (if n < 10 then [char_of (48 + n)] else fmt_u (n div 10) @ [char_of (48 + n mod 10)])"
  by pat_completeness auto
termination
  by (relation "measure id") auto

declare fmt_u.simps [simp del]

text \<open>The number of rounds of \<^verbatim>\<open>while ((digits /= 10) > 0) header_width++\<close>.\<close>

function digits_loop :: "nat \<Rightarrow> nat" where
  "digits_loop digits = (if 0 < digits div 10 then Suc (digits_loop (digits div 10)) else 0)"
  by pat_completeness auto
termination
  by (relation "measure id") auto

declare digits_loop.simps [simp del]

text \<open>
  \<^verbatim>\<open>calculate_object_sha\<close>. \<open>SHA1\<close> is OpenSSL's function, a parameter of the model.
  \<^verbatim>\<open>snprintf\<close> writes at most \<open>header_width - 1\<close> characters of the header and a NUL;
  the buffer follows at \<open>header_width\<close>.
\<close>

definition calculate_object_sha ::
  "(byte list \<Rightarrow> byte list) \<Rightarrow> byte list \<Rightarrow> nat \<Rightarrow> nat \<Rightarrow> string" where
  "calculate_object_sha SHA1 buffer' buffer_size' type' =
     (let header_width = length (types ! type') + 3 + digits_loop buffer_size';
          temp_buffer = bytes_of (take (header_width - 1) (types ! type' @ '' '' @ fmt_u buffer_size'))
                        @ [0] @ take buffer_size' buffer'
      in legible_sha (SHA1 temp_buffer))"

text \<open>
  \<^verbatim>\<open>store_object\<close>: when the checksum is already in the tree nothing is stored;
  otherwise the new node goes into the array, and into the tree when \<open>type < 6\<close>.
\<close>

definition store_object ::
  "(byte list \<Rightarrow> byte list) \<Rightarrow> 'a store_scheme \<Rightarrow> nat \<Rightarrow> byte list \<Rightarrow> nat \<Rightarrow> nat \<Rightarrow> int
     \<Rightarrow> byte list option \<Rightarrow> 'a store_scheme" where
  "store_object SHA1 connection type' buffer' buffer_size' pack_offset' index_delta' ref_delta_sha' =
     (let sha' = calculate_object_sha SHA1 buffer' buffer_size' type' in
      case RB_FIND sha (Objects connection) sha' of
        Some found \<Rightarrow> connection
      | None \<Rightarrow>
          (let object' = \<lparr> sha = sha', type = type', index = length (object connection),
                 index_delta = index_delta',
                 ref_delta_sha = map_option legible_sha ref_delta_sha',
                 pack_offset = pack_offset', buffer = buffer',
                 buffer_size = buffer_size', data_size = buffer_size' \<rparr>
           in connection
                \<lparr> Objects := (if type' < 6 then RB_INSERT sha (Objects connection) object'
                                else Objects connection),
                  object := object connection @ [object'] \<rparr>))"

text \<open>A tree of objects none of which is an ofs-delta (type 6) or a ref-delta (type 7).\<close>

definition concrete :: "object_node list \<Rightarrow> bool" where
  "concrete t = list_all (\<lambda>n. type n < 6) t"

section \<open>Integers of the delta format\<close>

text \<open>
  \<^verbatim>\<open>unpack_variable_length_integer\<close>:
  \<^verbatim>\<open>do result += (data[*position] & 0x7F) << (7 * count++); while (data[(*position)++] & 0x80);\<close>
  The result is a \<^verbatim>\<open>uint32_t\<close>; bits shifted past bit 31 are lost. From the sixth
  byte on the shift is by 35 or more, which C leaves undefined for a 32-bit operand;
  the processors the program is built for (amd64, aarch64) shift by the count modulo
  32, and so does the model: the bytes \<^verbatim>\<open>80 80 80 80 80 01\<close> give 8.
\<close>

function unpack_variable_length_integer_loop ::
  "byte list \<Rightarrow> nat \<Rightarrow> nat \<Rightarrow> 32 word \<Rightarrow> error + (32 word \<times> nat)" where
  "unpack_variable_length_integer_loop data position count result =
     (if length data \<le> position then Inl Undefined_behaviour
      else
        let result = result + push_bit (7 * count mod 32) (ucast (data ! position AND 0x7F)) in
        if data ! position AND 0x80 \<noteq> 0
        then unpack_variable_length_integer_loop data (position + 1) (count + 1) result
        else Inr (result, position + 1))"
  by pat_completeness auto
termination
  by (relation "measure (\<lambda>(data, position, count, result). length data - position)") auto

declare unpack_variable_length_integer_loop.simps [simp del]

definition unpack_variable_length_integer :: "byte list \<Rightarrow> nat \<Rightarrow> error + (32 word \<times> nat)" where
  "unpack_variable_length_integer data position =
     unpack_variable_length_integer_loop data position 0 0"

text \<open>
  \<^verbatim>\<open>unpack_delta_integer\<close>: \<open>read_bytes\<close> counts the bits 3..0 set in \<open>bits\<close>; then for
  \<open>mask\<close> = 3, 2, 1, 0 each set bit takes the byte at \<open>position + --temp\<close> into byte
  \<open>mask\<close> of the result.
\<close>

definition unpack_delta_integer :: "byte list \<Rightarrow> nat \<Rightarrow> nat \<Rightarrow> error + (32 word \<times> nat)" where
  "unpack_delta_integer data position bits =
     (let read_bytes = length (filter (bit bits) [3, 2, 1, 0]) in
      if length data < position + read_bytes then Inl Undefined_behaviour
      else Inr (fst (fold (\<lambda>mask (result, temp).
                       if bit bits mask
                       then (result + push_bit (mask * 8) (ucast (data ! (position + (temp - 1)))), temp - 1)
                       else (result, temp))
                     [3, 2, 1, 0] (0, read_bytes)),
                position + read_bytes))"

section \<open>The delta resolver: \<^verbatim>\<open>apply_deltas\<close>\<close>

text \<open>
  \<^verbatim>\<open>memcpy(dst + dst_pos, src + src_pos, n)\<close> on buffers whose allocated size is the
  length of the list.
\<close>

definition memcpy :: "byte list \<Rightarrow> nat \<Rightarrow> byte list \<Rightarrow> nat \<Rightarrow> nat \<Rightarrow> error + byte list" where
  "memcpy dst dst_pos src src_pos n =
     (if length src < src_pos + n \<or> length dst < dst_pos + n then Inl Undefined_behaviour
      else Inr (take dst_pos dst @ take n (drop src_pos src) @ drop (dst_pos + n) dst))"

text \<open>
  \<^verbatim>\<open>malloc\<close> and \<^verbatim>\<open>realloc\<close> do not initialise the bytes they add. \<open>heap\<close>, a
  parameter of the model, gives the byte found at each new index.
\<close>

definition realloc :: "(nat \<Rightarrow> byte) \<Rightarrow> byte list \<Rightarrow> nat \<Rightarrow> byte list" where
  "realloc heap buf n = take n buf @ map heap [length buf..<n]"

text \<open>Where the bytes of one instruction come from: \<open>start\<close> in the C code.\<close>

datatype source = From_merge_buffer | From_delta_buffer

text \<open>
  One copy/insert instruction, from \<^verbatim>\<open>instruction = delta->buffer[position++]\<close> to the
  end of the \<^verbatim>\<open>if\<close>: the source, \<open>offset\<close>, \<open>length\<close> and the new \<open>position\<close>.
\<close>

definition decode_instruction :: "byte list \<Rightarrow> nat \<Rightarrow> error + (source \<times> nat \<times> 32 word \<times> nat)" where
  "decode_instruction data position =
     (let instruction = data ! position; position = position + 1 in
      if instruction AND 0x80 \<noteq> 0 then
        (let length_bits = unat (drop_bit 4 (instruction AND 0x70));
             offset_bits = unat (instruction AND 0x0F) in
         case unpack_delta_integer data position offset_bits of
           Inl e \<Rightarrow> Inl e
         | Inr (offset, position) \<Rightarrow>
             (case unpack_delta_integer data position length_bits of
                Inl e \<Rightarrow> Inl e
              | Inr (length', position) \<Rightarrow>
                  Inr (From_merge_buffer, unat offset, if length' = 0 then 65536 else length', position)))
      else Inr (From_delta_buffer, position, ucast instruction, position + unat instruction))"

lemma unpack_delta_integer_position:
  "unpack_delta_integer data position bits = Inr (v, p) \<Longrightarrow> position \<le> p"
  by (auto simp: unpack_delta_integer_def Let_def split: if_splits)

lemma decode_instruction_position:
  "decode_instruction data position = Inr (src, off, len, p) \<Longrightarrow> position < p"
  by (auto simp: decode_instruction_def Let_def split: if_splits sum.splits
           dest!: unpack_delta_integer_position)

text \<open>
  The loop \<^verbatim>\<open>while (position < delta->data_size)\<close> over the instructions of one delta.
  \<open>new_position + length > new_file_size\<close> is compared in \<^verbatim>\<open>uint32_t\<close>. The result is
  the \<open>layer_buffer\<close> and the value of \<open>new_position\<close> when the loop ends.
\<close>

function delta_instructions ::
  "object_node \<Rightarrow> byte list \<Rightarrow> byte list \<Rightarrow> 32 word \<Rightarrow> nat \<Rightarrow> 32 word
     \<Rightarrow> error + (byte list \<times> 32 word)" where
  "delta_instructions delta merge_buffer layer_buffer new_file_size position new_position =
     (if position < data_size delta then
        (if length (buffer delta) \<le> position then Inl Undefined_behaviour
         else
           case decode_instruction (buffer delta) position of
             Inl e \<Rightarrow> Inl e
           | Inr (src, offset, length', position') \<Rightarrow>
               if new_file_size < new_position + length' then Inl Position_overflow
               else
                 (case memcpy layer_buffer (unat new_position)
                         (case src of From_merge_buffer \<Rightarrow> merge_buffer | From_delta_buffer \<Rightarrow> buffer delta)
                         offset (unat length') of
                    Inl e \<Rightarrow> Inl e
                  | Inr layer_buffer \<Rightarrow>
                      delta_instructions delta merge_buffer layer_buffer new_file_size position'
                        (new_position + length')))
      else Inr (layer_buffer, new_position))"
  by pat_completeness auto
termination
  by (relation "measure (\<lambda>(delta, merge_buffer, layer_buffer, new_file_size, position, new_position).
        data_size delta - position)")
     (auto dest!: decode_instruction_position)

declare delta_instructions.simps [simp del]

text \<open>
  One round of \<^verbatim>\<open>for (int x = delta_count - 1; x >= 0; x--)\<close>: the delta \<open>delta\<close> is
  applied to \<open>merge_buffer\<close>. The result is the new \<open>merge_buffer\<close>, the
  \<open>layer_buffer\<close> (which the next delta reuses) and \<open>new_file_size\<close>.
  \<open>layer_buffer_size\<close> and \<open>merge_buffer_size\<close> are \<^verbatim>\<open>int\<close>: a size of 2^31 or more
  becomes negative and \<^verbatim>\<open>realloc\<close> fails.
\<close>

definition apply_delta ::
  "(nat \<Rightarrow> byte) \<Rightarrow> object_node \<Rightarrow> byte list \<Rightarrow> byte list
     \<Rightarrow> error + (byte list \<times> byte list \<times> 32 word)" where
  "apply_delta heap delta merge_buffer layer_buffer =
     (case unpack_variable_length_integer (buffer delta) 0 of
        Inl e \<Rightarrow> Inl e
      | Inr (old_file_size, position) \<Rightarrow>
     (case unpack_variable_length_integer (buffer delta) position of
        Inl e \<Rightarrow> Inl e
      | Inr (new_file_size, position) \<Rightarrow>
          if 2147483648 \<le> unat new_file_size then Inl Realloc_failed
          else
            let layer_buffer =
                  (if length layer_buffer < unat new_file_size
                   then realloc heap layer_buffer (unat new_file_size) else layer_buffer) in
            case delta_instructions delta merge_buffer layer_buffer new_file_size position 0 of
              Inl e \<Rightarrow> Inl e
            | Inr (layer_buffer, new_position) \<Rightarrow>
                let merge_buffer =
                      (if length merge_buffer < unat new_file_size
                       then realloc heap merge_buffer (unat new_file_size) else merge_buffer) in
                (case memcpy merge_buffer 0 layer_buffer 0 (unat new_file_size) of
                   Inl e \<Rightarrow> Inl e
                 | Inr merge_buffer \<Rightarrow> Inr (merge_buffer, layer_buffer, new_file_size))))"

text \<open>
  \<^verbatim>\<open>while (delta->type == 6) { deltas[delta_count++] = delta->index; delta = connection->object[delta->index_delta]; }\<close>
  The array \<open>deltas\<close> has 4096 entries.
\<close>

function follow_ofs_deltas ::
  "object_node list \<Rightarrow> object_node \<Rightarrow> nat list \<Rightarrow> error + (object_node \<times> nat list)" where
  "follow_ofs_deltas obj delta deltas =
     (if type delta = 6 then
        (if 4096 \<le> length deltas then Inl Undefined_behaviour
         else if index_delta delta < 0 \<or> int (length obj) \<le> index_delta delta then Inl Undefined_behaviour
         else follow_ofs_deltas obj (obj ! nat (index_delta delta)) (deltas @ [index delta]))
      else Inr (delta, deltas))"
  by pat_completeness auto
termination
  by (relation "measure (\<lambda>(obj, delta, deltas). 4096 - length deltas)") auto

declare follow_ofs_deltas.simps [simp del]

text \<open>The loop over \<open>x\<close>; the list holds \<open>deltas[delta_count - 1], ..., deltas[0]\<close>.\<close>

fun apply_layers ::
  "(nat \<Rightarrow> byte) \<Rightarrow> object_node list \<Rightarrow> nat list \<Rightarrow> byte list \<Rightarrow> byte list \<Rightarrow> 32 word
     \<Rightarrow> error + (byte list \<times> byte list \<times> 32 word)" where
  "apply_layers heap obj [] merge_buffer layer_buffer new_file_size =
     Inr (merge_buffer, layer_buffer, new_file_size)"
| "apply_layers heap obj (x # xs) merge_buffer layer_buffer new_file_size =
     (if length obj \<le> x then Inl Undefined_behaviour
      else
        case apply_delta heap (obj ! x) merge_buffer layer_buffer of
          Inl e \<Rightarrow> Inl e
        | Inr (merge_buffer, layer_buffer, new_file_size) \<Rightarrow>
            apply_layers heap obj xs merge_buffer layer_buffer new_file_size)"

text \<open>
  The body of \<^verbatim>\<open>for (int o = 0; o < connection->objects; o++)\<close>. The locals
  \<open>layer_buffer\<close> and \<open>new_file_size\<close> keep their values from one object to the next.
  The base is looked up in the tree by \<open>delta->sha\<close>, where \<open>delta\<close> is the node the
  chain of ofs-deltas ends in.
\<close>

definition apply_deltas_body ::
  "(byte list \<Rightarrow> byte list) \<Rightarrow> (nat \<Rightarrow> byte) \<Rightarrow> nat \<Rightarrow> 'a store_scheme \<times> byte list \<times> 32 word
     \<Rightarrow> error + ('a store_scheme \<times> byte list \<times> 32 word)" where
  "apply_deltas_body SHA1 heap ob st =
     (case st of (connection, layer_buffer, new_file_size) \<Rightarrow>
        let delta = object connection ! ob in
        if type delta < 6 then Inr st
        else
          case follow_ofs_deltas (object connection) delta [] of
            Inl e \<Rightarrow> Inl e
          | Inr (delta, deltas) \<Rightarrow>
              (case RB_FIND sha (Objects connection) (sha delta) of
                 None \<Rightarrow> Inl Cant_find_base
               | Some base \<Rightarrow>
                   (case memcpy (realloc heap [] (buffer_size base)) 0 (buffer base) 0 (buffer_size base) of
                      Inl e \<Rightarrow> Inl e
                    | Inr merge_buffer \<Rightarrow>
                        (case apply_layers heap (object connection) (rev deltas)
                                merge_buffer layer_buffer new_file_size of
                           Inl e \<Rightarrow> Inl e
                         | Inr (merge_buffer, layer_buffer, new_file_size) \<Rightarrow>
                             if length merge_buffer < unat new_file_size then Inl Undefined_behaviour
                             else Inr (store_object SHA1 connection (type base) merge_buffer
                                         (unat new_file_size) 0 0 None,
                                       layer_buffer, new_file_size)))))"

text \<open>
  The loop over \<open>o\<close>. Its bound \<^verbatim>\<open>connection->objects\<close> grows with every object the
  body stores, so the loop is not bounded by the objects it starts with: \<open>None\<close> is a
  run that does not end.
\<close>

partial_function (option) apply_deltas_loop ::
  "(byte list \<Rightarrow> byte list) \<Rightarrow> (nat \<Rightarrow> byte) \<Rightarrow> nat \<Rightarrow> 'a store_scheme \<times> byte list \<times> 32 word
     \<Rightarrow> (error + 'a store_scheme) option" where
  "apply_deltas_loop SHA1 heap ob st =
     (if ob < length (object (fst st)) then
        (case apply_deltas_body SHA1 heap ob st of
           Inl e \<Rightarrow> Some (Inl e)
         | Inr st' \<Rightarrow> apply_deltas_loop SHA1 heap (ob + 1) st')
      else Some (Inr (fst st)))"

definition apply_deltas ::
  "(byte list \<Rightarrow> byte list) \<Rightarrow> (nat \<Rightarrow> byte) \<Rightarrow> 'a store_scheme \<Rightarrow> (error + 'a store_scheme) option" where
  "apply_deltas SHA1 heap connection = apply_deltas_loop SHA1 heap 0 (connection, [], 0)"

section \<open>The connection\<close>

text \<open>
  The fields of \<^verbatim>\<open>connector\<close> that the modelled functions use, after the two of
  \<open>store\<close>. \<open>response\<close> is \<^verbatim>\<open>connection->response[0 .. response_size - 1]\<close>, so
  \<^verbatim>\<open>response_size\<close> is its length. A null string is \<open>None\<close>. The fields
  \<^verbatim>\<open>section\<close> and \<^verbatim>\<open>have\<close> are \<open>section_name\<close> and \<open>have_sha\<close> here.
\<close>

record connector = store +
  agent :: "string option"
  section_name :: string
  repository :: string
  branch :: string
  have_sha :: "string option"
  want :: "string option"
  response :: "byte list"
  clone :: bool
  pack_file :: "string option"
  path_target :: string
  path_work :: string
  remote_file_old :: string
  remote_file_new :: string
  keep_pack_file :: bool
  use_pack_file :: bool

section \<open>The pack reader: \<^verbatim>\<open>unpack_objects\<close>\<close>

text \<open>
  The size of an entry:
  \<^verbatim>\<open>do { file_bits = response[position] & (stream_bytes == 0 ? 0x0F : 0x7F); file_size += (stream_bytes == 0 ? file_bits : file_bits << (4 + 7 * (stream_bytes - 1))); stream_bytes++; } while (response[position++] & 0x80);\<close>
  A shift by 32 or more is taken modulo 32, as in \<open>unpack_variable_length_integer\<close>.
\<close>

function extract_file_size :: "byte list \<Rightarrow> nat \<Rightarrow> nat \<Rightarrow> 32 word \<Rightarrow> error + (32 word \<times> nat)" where
  "extract_file_size response' position stream_bytes file_size =
     (if length response' \<le> position then Inl Undefined_behaviour
      else
        let file_bits = ucast (response' ! position AND (if stream_bytes = 0 then 0x0F else 0x7F));
            file_size = file_size + (if stream_bytes = 0 then file_bits
                                     else push_bit ((4 + 7 * (stream_bytes - 1)) mod 32) file_bits)
        in if response' ! position AND 0x80 \<noteq> 0
           then extract_file_size response' (position + 1) (stream_bytes + 1) file_size
           else Inr (file_size, position + 1))"
  by pat_completeness auto
termination
  by (relation "measure (\<lambda>(response', position, stream_bytes, file_size). length response' - position)") auto

declare extract_file_size.simps [simp del]

text \<open>
  \<^verbatim>\<open>do lookup_offset = (lookup_offset << 7) + (response[position] & 0x7F) + 1; while (response[position++] & 0x80);\<close>
  \<open>lookup_offset\<close> is a 32-bit \<^verbatim>\<open>int\<close>. C leaves its overflow undefined; the compiled
  program wraps, and so does the model: the bytes \<^verbatim>\<open>8e fe fe ff 0d\<close> give 14.
\<close>

function extract_lookup_offset :: "byte list \<Rightarrow> nat \<Rightarrow> 32 word \<Rightarrow> error + (32 word \<times> nat)" where
  "extract_lookup_offset response' position lookup_offset =
     (if length response' \<le> position then Inl Undefined_behaviour
      else
        let lookup_offset = push_bit 7 lookup_offset + ucast (response' ! position AND 0x7F) + 1
        in if response' ! position AND 0x80 \<noteq> 0
           then extract_lookup_offset response' (position + 1) lookup_offset
           else Inr (lookup_offset, position + 1))"
  by pat_completeness auto
termination
  by (relation "measure (\<lambda>(response', position, lookup_offset). length response' - position)") auto

declare extract_lookup_offset.simps [simp del]

text \<open>
  \<^verbatim>\<open>while (--index_delta > 0) if (pack_offset - lookup_offset + 1 == connection->object[index_delta]->pack_offset) break;\<close>
  \<open>target\<close> is the left side of the comparison, a 32-bit \<^verbatim>\<open>int\<close>. The argument is \<open>index_delta\<close> before the decrement, the result \<open>index_delta\<close> after
  the loop: the index found, 0 when none of the objects \<open>objects - 1, ..., 1\<close> is at the
  offset, and -1 when the array is empty.
\<close>

function find_ofs_delta_base :: "object_node list \<Rightarrow> int \<Rightarrow> int \<Rightarrow> int" where
  "find_ofs_delta_base obj target index_delta' =
     (if 0 < index_delta' - 1
      then (if target = int (pack_offset (obj ! nat (index_delta' - 1))) then index_delta' - 1
            else find_ofs_delta_base obj target (index_delta' - 1))
      else index_delta' - 1)"
  by pat_completeness auto
termination
  by (relation "measure (\<lambda>(obj, target, index_delta'). nat index_delta')") auto

declare find_ofs_delta_base.simps [simp del]

text \<open>
  The loop \<^verbatim>\<open>while ((position < connection->response_size) && (total_objects-- > 0))\<close>.
  \<open>inflate\<close> is zlib's decompressor, a parameter of the model: from the bytes at
  \<open>position\<close> it gives the inflated buffer and \<^verbatim>\<open>stream.total_in\<close>.
\<close>

function unpack_objects_loop ::
  "(byte list \<Rightarrow> byte list) \<Rightarrow> (byte list \<Rightarrow> byte list \<times> nat) \<Rightarrow> int \<Rightarrow> nat
     \<Rightarrow> 'a connector_scheme \<Rightarrow> error + 'a connector_scheme" where
  "unpack_objects_loop SHA1 inflate total_objects position connection =
     (if position < length (response connection) \<and> 0 < total_objects then
        let object_type = unat (drop_bit 4 (response connection ! position) AND 0x07);
            pack_offset' = position
        in
        case extract_file_size (response connection) position 0 0 of
          Inl e \<Rightarrow> Inl e
        | Inr (file_size, position) \<Rightarrow>
        (case (if object_type = 6
               then (case extract_lookup_offset (response connection) position 0 of
                       Inl e \<Rightarrow> Inl e
                     | Inr (lookup_offset, position) \<Rightarrow>
                         let index_delta' = find_ofs_delta_base (object connection)
                               (sint (word_of_nat pack_offset' - lookup_offset + 1 :: 32 word))
                               (int (length (object connection)))
                         in if index_delta' = 0 then Inl Cannot_find_ofs_delta_base
                            else Inr (index_delta', position))
               else Inr (0, position)) of
           Inl e \<Rightarrow> Inl e
         | Inr (index_delta', position) \<Rightarrow>
        (case (if object_type = 7
               then (if length (response connection) < position + 20 then Inl Undefined_behaviour
                     else Inr (Some (take 20 (drop position (response connection))), position + 20))
               else Inr (None, position)) of
           Inl e \<Rightarrow> Inl e
         | Inr (ref_delta_sha', position) \<Rightarrow>
        (case inflate (drop position (response connection)) of
           (buffer', total_in) \<Rightarrow>
             unpack_objects_loop SHA1 inflate (total_objects - 1) (position + total_in)
               (store_object SHA1 connection object_type buffer' (length buffer')
                  pack_offset' index_delta' ref_delta_sha'))))
      else Inr connection)"
  by pat_completeness auto
termination
  by (relation "measure (\<lambda>(SHA1, inflate, total_objects, position, connection). nat total_objects)") auto

declare unpack_objects_loop.simps [simp del]

text \<open>
  \<^verbatim>\<open>unpack_objects\<close>: the version is the byte at 7, \<open>total_objects\<close> the big-endian
  \<^verbatim>\<open>int\<close> of the bytes at 8..11 (negative from 2^31 on: no round of the loop).
\<close>

definition unpack_objects ::
  "(byte list \<Rightarrow> byte list) \<Rightarrow> (byte list \<Rightarrow> byte list \<times> nat) \<Rightarrow> 'a connector_scheme
     \<Rightarrow> error + 'a connector_scheme" where
  "unpack_objects SHA1 inflate connection =
     (if length (response connection) < 12 then Inl Undefined_behaviour
      else
        let version = unat (response connection ! 7) in
        if version \<noteq> 2 then Inl Pack_version_not_supported
        else
          let total_objects =
                sint (fold (\<lambda>x total_objects. push_bit 8 total_objects + ucast (response connection ! x))
                        [8, 9, 10, 11] (0 :: 32 word))
          in unpack_objects_loop SHA1 inflate total_objects 12 connection)"

section \<open>C strings and \<^verbatim>\<open>printf\<close> conversions\<close>

text \<open>
  The functions of the C library that the program applies to its buffers. A string
  argument is the list of bytes from the pointer on; the functions read it up to its
  first NUL.
\<close>

definition c_string :: "byte list \<Rightarrow> byte list" where
  "c_string s = takeWhile (\<lambda>b. b \<noteq> 0) s"

text \<open>\<^verbatim>\<open>strstr\<close> on a string without NUL: the index of the first occurrence.\<close>

fun strstr :: "byte list \<Rightarrow> byte list \<Rightarrow> nat option" where
  "strstr [] little = (if little = [] then Some 0 else None)"
| "strstr (b # big) little =
     (if take (length little) (b # big) = little then Some 0
      else map_option Suc (strstr big little))"

definition isspace :: "byte \<Rightarrow> bool" where
  "isspace b = (unat b = 32 \<or> (9 \<le> unat b \<and> unat b \<le> 13))"

definition digit_value :: "byte \<Rightarrow> nat" where
  "digit_value b =
     (if 48 \<le> unat b \<and> unat b \<le> 57 then unat b - 48
      else if 97 \<le> unat b \<and> unat b \<le> 122 then unat b - 87
      else if 65 \<le> unat b \<and> unat b \<le> 90 then unat b - 55
      else 36)"

fun strtol_digits :: "nat \<Rightarrow> byte list \<Rightarrow> int \<Rightarrow> int" where
  "strtol_digits base [] acc = acc"
| "strtol_digits base (b # s) acc =
     (if digit_value b < base then strtol_digits base s (acc * int base + int (digit_value b))
      else acc)"

text \<open>
  \<^verbatim>\<open>strtol(nptr, NULL, base)\<close> for the bases 8 and 16: white space, a sign, for base
  16 a prefix \<^verbatim>\<open>0x\<close> before a digit, the digits; the value is kept within the range
  of \<^verbatim>\<open>long\<close>.
\<close>

definition strtol :: "byte list \<Rightarrow> nat \<Rightarrow> int" where
  "strtol nptr base =
     (let s = dropWhile isspace nptr;
          negative = (take 1 s = [0x2d]);
          s = (if take 1 s = [0x2d] \<or> take 1 s = [0x2b] then drop 1 s else s);
          s = (if base = 16 \<and> take 1 s = [0x30]
                  \<and> (take 1 (drop 1 s) = [0x78] \<or> take 1 (drop 1 s) = [0x58])
                  \<and> (case drop 2 s of [] \<Rightarrow> False | b # t \<Rightarrow> digit_value b < 16)
               then drop 2 s else s);
          v = strtol_digits base s 0;
          v = (if negative then - v else v)
      in max (- 9223372036854775808) (min 9223372036854775807 v))"

function fmt_radix :: "nat \<Rightarrow> nat \<Rightarrow> string" where
  "fmt_radix radix n =
     (if radix < 2 \<or> n < radix then [hex_digit n]
      else fmt_radix radix (n div radix) @ [hex_digit (n mod radix)])"
  by pat_completeness auto
termination
  by (relation "measure (\<lambda>(radix, n). n)") auto

declare fmt_radix.simps [simp del]

text \<open>\<^verbatim>\<open>%o\<close> and \<^verbatim>\<open>%04lx\<close>.\<close>

definition fmt_o :: "nat \<Rightarrow> string" where
  "fmt_o n = fmt_radix 8 n"

definition fmt_04lx :: "nat \<Rightarrow> string" where
  "fmt_04lx n = replicate (4 - length (fmt_radix 16 n)) CHR ''0'' @ fmt_radix 16 n"

section \<open>The state of a run\<close>

text \<open>
  \<^verbatim>\<open>struct file_node\<close>; its field \<^verbatim>\<open>sha\<close> is \<open>file_sha\<close> here, \<open>None\<close> when null (the
  local scan leaves it null for a symbolic link). \<^verbatim>\<open>mode_t\<close> has 16 bits.
\<close>

record file_node =
  mode :: nat
  path :: string
  file_sha :: "string option"

text \<open>What stands at a path of the file system: for a regular file its mode and bytes.\<close>

datatype inode = Directory | Symlink string | Regular nat "byte list"

text \<open>
  The whole state: the connection, the global trees \<^verbatim>\<open>Local_Files\<close> (what
  \<^verbatim>\<open>find_local_tree\<close> scanned under the target directory) and \<^verbatim>\<open>Remote_Files\<close> (the
  rows of the manifest), both keyed by \<open>path\<close>, the file system \<open>files\<close>, and \<open>sent\<close>,
  the commands given to \<^verbatim>\<open>process_command\<close> so far.

  The file system is a map from paths to files. Of the ways a system call can fail it
  has those that depend on what stands at the path: a missing file, a path taken
  already, a directory where a file is opened. Permissions, missing parent
  directories and full disks are outside the model, and a symbolic link at a path
  that is opened counts as a failure to open.
\<close>

record gitup = connector +
  Local_Files :: "file_node list"
  Remote_Files :: "file_node list"
  files :: "string \<rightharpoonup> inode"
  sent :: "string list"

text \<open>
  A run ends with \<^verbatim>\<open>exit(EXIT_FAILURE)\<close> in some state, or goes on: \<open>Inl\<close> holds the
  error and the state in which the program exits.
\<close>

type_synonym 'a outcome = "(error \<times> 'a) + 'a"

definition final :: "'a outcome \<Rightarrow> 'a" where
  "final r = (case r of Inl (e, st) \<Rightarrow> st | Inr st \<Rightarrow> st)"

definition S_ISDIR :: "nat \<Rightarrow> bool" where
  "S_ISDIR m = (m div 4096 mod 16 = 4)"

definition S_ISLNK :: "nat \<Rightarrow> bool" where
  "S_ISLNK m = (m div 4096 mod 16 = 10)"

text \<open>
  \<^verbatim>\<open>load_file\<close>: the bytes of the file, \<open>[]\<close> for a file of size 0 (the buffer is then
  left as it was, null in both calls of the program).
\<close>

definition load_file :: "'a gitup_scheme \<Rightarrow> string \<Rightarrow> error + byte list" where
  "load_file st path' =
     (case files st path' of
        Some (Regular m bytes) \<Rightarrow> Inr bytes
      | _ \<Rightarrow> Inl Cannot_load_file)"

text \<open>\<^verbatim>\<open>open(path, O_WRONLY | O_CREAT | O_TRUNC)\<close>, \<^verbatim>\<open>chmod\<close>, \<^verbatim>\<open>write\<close>, \<^verbatim>\<open>close\<close>.\<close>

definition write_file :: "'a gitup_scheme \<Rightarrow> string \<Rightarrow> nat \<Rightarrow> byte list \<Rightarrow> 'a gitup_scheme option" where
  "write_file st path' mode' bytes =
     (case files st path' of
        Some Directory \<Rightarrow> None
      | Some (Symlink t) \<Rightarrow> None
      | _ \<Rightarrow> Some (st \<lparr> files := (files st)(path' \<mapsto> Regular (mode' mod 4096) bytes) \<rparr>))"

section \<open>Requests: \<^verbatim>\<open>process_command\<close>, \<^verbatim>\<open>send_command\<close>, \<^verbatim>\<open>initiate_clone\<close>, \<^verbatim>\<open>initiate_pull\<close>\<close>

text \<open>
  \<^verbatim>\<open>process_command\<close> sends the command and leaves the body of the answer, with the
  chunk markers of the transfer encoding removed, in \<open>response\<close>. The transport is
  outside the model: \<open>server\<close>, a parameter, gives that body for each command.
\<close>

definition process_command :: "(string \<Rightarrow> byte list) \<Rightarrow> 'a gitup_scheme \<Rightarrow> string \<Rightarrow> 'a gitup_scheme" where
  "process_command server st command =
     st \<lparr> response := server command, sent := sent st @ [command] \<rparr>"

text \<open>
  \<^verbatim>\<open>send_command\<close> formats the request into \<^verbatim>\<open>BUFFER_UNIT_SMALL + want_size\<close> bytes
  with a limit of \<^verbatim>\<open>BUFFER_UNIT_LARGE\<close>.
\<close>

definition send_command :: "(string \<Rightarrow> byte list) \<Rightarrow> 'a gitup_scheme \<Rightarrow> string \<Rightarrow> 'a gitup_scheme outcome" where
  "send_command server st want' =
     (let command =
            take 1048575
              (''POST '' @ repository st @ ''/git-upload-pack HTTP/1.1'' @ [CHR 0x0A]
               @ ''Host: github.com'' @ [CHR 0x0A]
               @ ''User-Agent: git/2.28'' @ [CHR 0x0A]
               @ ''Accept-encoding: deflate, gzip'' @ [CHR 0x0A]
               @ ''Content-type: application/x-git-upload-pack-request'' @ [CHR 0x0A]
               @ ''Accept: application/x-git-upload-pack-result'' @ [CHR 0x0A]
               @ ''Git-Protocol: version=2'' @ [CHR 0x0A]
               @ ''Content-length: '' @ fmt_u (length want') @ [CHR 0x0A]
               @ [CHR 0x0D, CHR 0x0A]
               @ want')
      in if 4096 + length want' < length command + 1 then Inl (Undefined_behaviour, st)
         else Inr (process_command server st command))"

text \<open>
  The bodies are built by \<^verbatim>\<open>snprintf\<close> into 4096 bytes. A null \<open>agent\<close>, \<open>want\<close> or
  \<open>have\<close> is passed to \<^verbatim>\<open>strlen\<close> or to \<^verbatim>\<open>%s\<close>.
\<close>

definition initiate_clone :: "(string \<Rightarrow> byte list) \<Rightarrow> 'a gitup_scheme \<Rightarrow> 'a gitup_scheme outcome" where
  "initiate_clone server st =
     (case (agent st, want st) of
        (Some agent', Some want') \<Rightarrow>
          send_command server st
                 (take 4095
                    (''0011command=fetch''
                     @ fmt_04lx (length agent' + 4) @ agent' @ ''0001''
                     @ ''000fno-progress''
                     @ ''000dofs-delta''
                     @ ''0034shallow '' @ want'
                     @ ''0032want '' @ want' @ [CHR 0x0A]
                     @ ''0032want '' @ want' @ [CHR 0x0A]
                     @ ''0009done'' @ [CHR 0x0A] @ ''0000''))
      | _ \<Rightarrow> Inl (Undefined_behaviour, st))"

definition initiate_pull :: "(string \<Rightarrow> byte list) \<Rightarrow> 'a gitup_scheme \<Rightarrow> 'a gitup_scheme outcome" where
  "initiate_pull server st =
     (case (agent st, want st, have_sha st) of
        (Some agent', Some want', Some have') \<Rightarrow>
          send_command server st
                 (take 4095
                    (''0011command=fetch''
                     @ fmt_04lx (length agent' + 4) @ agent' @ ''0001''
                     @ ''000dthin-pack''
                     @ ''000fno-progress''
                     @ ''000dofs-delta''
                     @ ''0034shallow '' @ want'
                     @ ''0034shallow '' @ have'
                     @ ''000cdeepen 1''
                     @ ''0032want '' @ want' @ [CHR 0x0A]
                     @ ''0032have '' @ have' @ [CHR 0x0A])
                  @ ''0009done'' @ [CHR 0x0A] @ ''0000'')
      | _ \<Rightarrow> Inl (Undefined_behaviour, st))"

section \<open>\<^verbatim>\<open>get_commit_details\<close>\<close>

text \<open>
  The NULs of the answer become newlines; the agent is the text from \<^verbatim>\<open>agent=\<close> to the
  end of its line; \<open>want\<close>, unless it is set already, is the 40 bytes before
  \<^verbatim>\<open> refs/heads/<branch>\<close> and a newline.
\<close>

definition get_commit_details :: "(string \<Rightarrow> byte list) \<Rightarrow> 'a gitup_scheme \<Rightarrow> 'a gitup_scheme outcome" where
  "get_commit_details server st =
     (let st = process_command server st
                 (take 4095
                    (''GET '' @ repository st @ ''/info/refs?service=git-upload-pack HTTP/1.1'' @ [CHR 0x0A]
                     @ ''Host: github.com'' @ [CHR 0x0A]
                     @ ''User-Agent: git/2.28'' @ [CHR 0x0A]
                     @ [CHR 0x0D, CHR 0x0A]));
          st = st \<lparr> response := map (\<lambda>b. if b = 0 then 0x0A else b) (response st) \<rparr>
      in
      case strstr (response st) (bytes_of ''agent='') of
        None \<Rightarrow> Inl (Undefined_behaviour, st)
      | Some position \<Rightarrow>
      (case strstr (drop position (response st)) [0x0A] of
        None \<Rightarrow> Inl (Undefined_behaviour, st)
      | Some end' \<Rightarrow>
          let st = st \<lparr> agent := Some (string_of (take end' (drop position (response st)))) \<rparr> in
          case (if want st = None
                then (case strstr (response st)
                             (bytes_of (take 4095 ('' refs/heads/'' @ branch st @ [CHR 0x0A]))) of
                        None \<Rightarrow> Inl (Branch_doesnt_exist, st)
                      | Some position \<Rightarrow>
                          if position < 40 then Inl (Undefined_behaviour, st)
                          else Inr (st \<lparr> want := Some (string_of (take 40 (drop (position - 40) (response st)))) \<rparr>))
                else Inr st) of
            Inl e \<Rightarrow> Inl e
          | Inr st \<Rightarrow>
              if keep_pack_file st
              then Inr (st \<lparr> pack_file :=
                          Some (take (length (section_name st) + 46)
                                  (section_name st @ ''-'' @ (case want st of Some w \<Rightarrow> w | None \<Rightarrow> ''(null)'')
                                   @ ''.pack'')) \<rparr>)
              else Inr st))"

section \<open>\<^verbatim>\<open>check_local_tree\<close>\<close>

text \<open>
  Every row of \<^verbatim>\<open>Remote_Files\<close> is looked up in \<^verbatim>\<open>Local_Files\<close>; a missing file or
  another checksum counts as an error, and the program exits after the loop when there
  was one. \<^verbatim>\<open>strncmp\<close> on the null checksum of a local symbolic link has no defined
  behaviour.
\<close>

fun check_local_tree_loop :: "file_node list \<Rightarrow> file_node list \<Rightarrow> nat \<Rightarrow> error option" where
  "check_local_tree_loop local [] errors = (if 0 < errors then Some Local_tree_check_failed else None)"
| "check_local_tree_loop local (find' # remote) errors =
     (case RB_FIND path local (path find') of
        None \<Rightarrow> check_local_tree_loop local remote (errors + 1)
      | Some found \<Rightarrow>
          (case (file_sha found, file_sha find') of
             (Some found_sha, Some find_sha) \<Rightarrow>
               if take 40 found_sha \<noteq> take 40 find_sha
               then check_local_tree_loop local remote (errors + 1)
               else check_local_tree_loop local remote errors
           | _ \<Rightarrow> Some Undefined_behaviour))"

definition check_local_tree :: "'a gitup_scheme \<Rightarrow> error option" where
  "check_local_tree st = check_local_tree_loop (Local_Files st) (Remote_Files st) 0"

section \<open>\<^verbatim>\<open>fetch_pack\<close>\<close>

text \<open>
  The loop that removes the length markers of the packet lines:
  \<^verbatim>\<open>while (chunk_size > 0) { chunk_size = strtol(response + source, NULL, 16); if (chunk_size == 0) break; memmove(response + target, response + source + 5, chunk_size - 5); target += chunk_size - 5; source += chunk_size; response_size -= 5; }\<close>
  \<open>buf\<close> is the answer with the NUL that \<^verbatim>\<open>process_command\<close> puts after it. The bytes
  behind that NUL are what earlier transfers left in the buffer; the model does not
  have them, and a read there ends the run as \<open>Undefined_behaviour\<close>. So does a
  \<open>chunk_size\<close> below 5, with which \<^verbatim>\<open>memmove\<close> gets a negative size.
\<close>

function remove_chunk_size_markers ::
  "byte list \<Rightarrow> nat \<Rightarrow> nat \<Rightarrow> 32 word \<Rightarrow> error + (byte list \<times> 32 word)" where
  "remove_chunk_size_markers buf source target response_size =
     (if length buf \<le> source then Inl Undefined_behaviour
      else
        let chunk_size = sint (word_of_int (strtol (drop source buf) 16) :: 32 word) in
        if chunk_size = 0 then Inr (buf, response_size)
        else if chunk_size < 5 then Inl Undefined_behaviour
        else if length buf < source + nat chunk_size \<or> length buf < target + (nat chunk_size - 5)
        then Inl Undefined_behaviour
        else remove_chunk_size_markers
               (take target buf @ take (nat chunk_size - 5) (drop (source + 5) buf)
                  @ drop (target + (nat chunk_size - 5)) buf)
               (source + nat chunk_size) (target + (nat chunk_size - 5)) (response_size - 5))"
  by pat_completeness auto
termination
  by (relation "measure (\<lambda>(buf, source, target, response_size). length buf - source)") auto

declare remove_chunk_size_markers.simps [simp del]

text \<open>
  The block \<^verbatim>\<open>if (connection->response_size == 0) { ... }\<close> of \<^verbatim>\<open>fetch_pack\<close>: the
  request, the search for \<^verbatim>\<open>PACK\<close>, the removal of the markers. It ends with the pack
  data in \<open>response\<close>. There is no comparison of \<open>want\<close> with \<open>have\<close> in it or before it.
\<close>

definition fetch_pack_from_server ::
  "(string \<Rightarrow> byte list) \<Rightarrow> 'a gitup_scheme \<Rightarrow> 'a gitup_scheme outcome" where
  "fetch_pack_from_server server st =
     (case (if files st (remote_file_old st) = None \<or> clone st
            then initiate_clone server st else initiate_pull server st) of
        Inl e \<Rightarrow> Inl e
      | Inr st \<Rightarrow>
      (case strstr (c_string (response st)) (bytes_of ''PACK'') of
         None \<Rightarrow> Inl (No_pack_data, st)
       | Some pack_start \<Rightarrow>
           if pack_start < 5 then Inl (Undefined_behaviour, st)
           else
             let pack_start = pack_start - 5;
                 response_size = (word_of_nat (length (response st)) :: 32 word)
                                   - word_of_nat (pack_start + 11)
             in
             case memcpy (response st @ [0]) 0 (response st @ [0]) 8 4 of
               Inl e \<Rightarrow> Inl (e, st)
             | Inr buf \<Rightarrow>
             (case remove_chunk_size_markers buf pack_start 0 response_size of
                Inl e \<Rightarrow> Inl (e, st)
              | Inr (buf, response_size) \<Rightarrow>
                  let response_size = response_size + 5;
                      pack_size = sint (response_size - 20)
                  in if pack_size < 0 \<or> int (length buf) < pack_size + 20
                     then Inl (Undefined_behaviour, st)
                     else Inr (st \<lparr> response := take (nat pack_size + 20) buf \<rparr>))))"

text \<open>
  \<^verbatim>\<open>fetch_pack\<close>. \<^verbatim>\<open>response_size = 0\<close> is \<open>response := []\<close>. A pack file is loaded when
  \<^verbatim>\<open>use_pack_file\<close> is set and the file exists; the local tree is checked when the
  manifest exists and no clone is asked for; the server is asked whenever no pack data
  has been loaded. Then the last 20 bytes are compared with the checksum of the bytes
  before them, and the pack is saved if \<^verbatim>\<open>keep_pack_file\<close> is set (420 is the mode
  \<^verbatim>\<open>0644\<close>).
\<close>

definition fetch_pack ::
  "(byte list \<Rightarrow> byte list) \<Rightarrow> (string \<Rightarrow> byte list) \<Rightarrow> 'a gitup_scheme \<Rightarrow> 'a gitup_scheme outcome" where
  "fetch_pack SHA1 server st =
     (let st = st \<lparr> response := [] \<rparr> in
      case (case pack_file st of
              None \<Rightarrow> Inr st
            | Some p \<Rightarrow>
                if use_pack_file st \<and> files st p \<noteq> None
                then (case load_file st p of
                        Inl e \<Rightarrow> Inl (e, st)
                      | Inr bytes \<Rightarrow> Inr (st \<lparr> response := bytes \<rparr>))
                else Inr st) of
        Inl e \<Rightarrow> Inl e
      | Inr st \<Rightarrow>
      (case (if files st (remote_file_old st) \<noteq> None \<and> \<not> clone st
             then check_local_tree st else None) of
         Some e \<Rightarrow> Inl (e, st)
       | None \<Rightarrow>
      (case (if response st = [] then fetch_pack_from_server server st else Inr st) of
         Inl e \<Rightarrow> Inl e
       | Inr st \<Rightarrow>
           if length (response st) < 20 then Inl (Undefined_behaviour, st)
           else
             let pack_size = length (response st) - 20 in
             if drop pack_size (response st) \<noteq> take 20 (SHA1 (take pack_size (response st)))
             then Inl (Pack_checksum_mismatch, st)
             else if keep_pack_file st
             then (case pack_file st of
                     None \<Rightarrow> Inl (Write_file_failure, st)
                   | Some p \<Rightarrow>
                       (case write_file st p 420 (response st) of
                          None \<Rightarrow> Inl (Write_file_failure, st)
                        | Some st \<Rightarrow> Inr st))
             else Inr st)))"

section \<open>The writer: \<^verbatim>\<open>extract_tree_item\<close>, \<^verbatim>\<open>save_tree\<close>, \<^verbatim>\<open>save_objects\<close>\<close>

text \<open>
  \<^verbatim>\<open>extract_tree_item\<close> reads one item of a tree at \<open>position\<close>: the mode in octal, a
  space, the path up to a NUL, 20 bytes of checksum. The result is the item and the
  position behind it. \<open>buf\<close> is the buffer of the tree object; the item has to lie
  within it, and its path within the 4097 bytes of \<^verbatim>\<open>file->path\<close>.
\<close>

definition extract_tree_item :: "byte list \<Rightarrow> nat \<Rightarrow> error + (file_node \<times> nat)" where
  "extract_tree_item buf position =
     (let item = drop position buf;
          mode' = nat (strtol item 8 mod 65536);
          space = length (takeWhile (\<lambda>b. b \<noteq> 0x20 \<and> b \<noteq> 0) item)
      in if length item \<le> space \<or> item ! space \<noteq> 0x20 then Inl Undefined_behaviour
         else
           let position = position + space + 1;
               path' = c_string (drop position buf);
               path_size = length path' + 1
           in if length buf < position + path_size \<or> 4097 < path_size
              then Inl Undefined_behaviour
              else
                let position = position + path_size
                in if length buf < position + 20 then Inl Undefined_behaviour
                   else Inr (\<lparr> mode = mode', path = string_of path',
                               file_sha = Some (legible_sha (drop position buf)) \<rparr>,
                             position + 20))"

text \<open>\<^verbatim>\<open>mkdir(path, 0755)\<close> where \<^verbatim>\<open>EEXIST\<close> is no error.\<close>

definition mkdir :: "'a gitup_scheme \<Rightarrow> string \<Rightarrow> 'a gitup_scheme" where
  "mkdir st path' =
     (if files st path' = None then st \<lparr> files := (files st)(path' \<mapsto> Directory) \<rparr> else st)"

text \<open>
  The branch of \<^verbatim>\<open>save_tree\<close> for an item that is not a directory. The object and the
  local file are looked up; the item is skipped when the local file has the checksum of
  the object; otherwise it is written, as a symbolic link or as a file. Only a file
  that was not there before gets a row in \<^verbatim>\<open>Remote_Files\<close>; for one that was there,
  its node in \<^verbatim>\<open>Local_Files\<close> is updated. A symbolic link gets neither.

  \<^verbatim>\<open>strncmp\<close> with the null checksum of a local symbolic link, \<^verbatim>\<open>symlink\<close> with a
  buffer without NUL, and \<^verbatim>\<open>write\<close> of more bytes than the buffer has are the places
  without defined behaviour.
\<close>

definition save_file :: "'a gitup_scheme \<Rightarrow> file_node \<Rightarrow> string \<Rightarrow> 'a gitup_scheme outcome" where
  "save_file st file' full_path =
     (case RB_FIND sha (Objects st) (case file_sha file' of Some s \<Rightarrow> s | None \<Rightarrow> []) of
        None \<Rightarrow> Inl (File_cannot_be_found, st)
      | Some found_object \<Rightarrow>
          let found_file = RB_FIND path (Local_Files st) full_path in
          case (case found_file of
                  None \<Rightarrow> Inr False
                | Some f \<Rightarrow>
                    (case file_sha f of
                       None \<Rightarrow> Inl Undefined_behaviour
                     | Some s \<Rightarrow> Inr (take 40 (sha found_object) = take 40 s))) of
            Inl e \<Rightarrow> Inl (e, st)
          | Inr unchanged \<Rightarrow>
              if unchanged then Inr st
              else if S_ISLNK (mode file') then
                (if 0 \<notin> set (buffer found_object) then Inl (Undefined_behaviour, st)
                 else if files st full_path \<noteq> None then Inl (Symlink_failure, st)
                 else Inr (st \<lparr> files := (files st)
                                 (full_path \<mapsto> Symlink (string_of (c_string (buffer found_object)))) \<rparr>))
              else if length (buffer found_object) < data_size found_object
              then Inl (Undefined_behaviour, st)
              else
                (case write_file st full_path (mode file')
                        (take (data_size found_object) (buffer found_object)) of
                   None \<Rightarrow> Inl (Write_file_failure, st)
                 | Some st \<Rightarrow>
                     (case found_file of
                        None \<Rightarrow>
                          Inr (st \<lparr> Remote_Files := RB_INSERT path (Remote_Files st)
                                      \<lparr> mode = mode file', path = full_path,
                                        file_sha = Some (sha found_object) \<rparr> \<rparr>)
                      | Some f \<Rightarrow>
                          Inr (st \<lparr> Local_Files :=
                                      map (\<lambda>n. if path n = full_path
                                               then n \<lparr> mode := mode file',
                                                        file_sha := Some (sha found_object) \<rparr>
                                               else n) (Local_Files st) \<rparr>))))"

text \<open>
  \<^verbatim>\<open>save_tree\<close> calls itself for every directory of a tree. Here the calls in progress
  are a list of frames, the innermost first: the tree object of the call, the
  \<open>position\<close> its loop has reached, and its \<open>base_path\<close>.

  \<open>save_tree_enter\<close> is the start of a call, up to the loop: the directory is made and
  the tree looked up. \<open>save_tree_step\<close> is one round of the loop of the innermost call,
  or its return when the loop is over. Its result is \<open>Inl\<close> when the outermost call has
  returned or the program has exited, and otherwise the state and the frames to go on
  with.
\<close>

type_synonym frame = "object_node \<times> nat \<times> string"

definition save_tree_enter ::
  "'a gitup_scheme \<Rightarrow> string \<Rightarrow> string \<Rightarrow> (error \<times> 'a gitup_scheme) + ('a gitup_scheme \<times> frame)" where
  "save_tree_enter st sha' base_path =
     (let st = mkdir st base_path in
      case RB_FIND sha (Objects st) sha' of
        None \<Rightarrow> Inl (Tree_cannot_be_found, st)
      | Some tree \<Rightarrow> Inr (st, (tree, 0, base_path)))"

definition save_tree_step ::
  "'a gitup_scheme \<Rightarrow> frame list \<Rightarrow> 'a gitup_scheme outcome + ('a gitup_scheme \<times> frame list)" where
  "save_tree_step st frames =
     (case frames of
        [] \<Rightarrow> Inl (Inr st)
      | (tree, position, base_path) # callers \<Rightarrow>
          if \<not> position < data_size tree then
            (if callers = [] then Inl (Inr st) else Inr (st, callers))
          else
            (case extract_tree_item (buffer tree) position of
               Inl e \<Rightarrow> Inl (Inl (e, st))
             | Inr (file', position) \<Rightarrow>
                 let full_path = take 4095 (base_path @ ''/'' @ path file') in
                 if S_ISDIR (mode file') then
                   (case save_tree_enter st (case file_sha file' of Some s \<Rightarrow> s | None \<Rightarrow> [])
                           full_path of
                      Inl e \<Rightarrow> Inl (Inl e)
                    | Inr (st, frame') \<Rightarrow> Inr (st, frame' # (tree, position, base_path) # callers))
                 else
                   (case save_file st file' full_path of
                      Inl e \<Rightarrow> Inl (Inl e)
                    | Inr st \<Rightarrow> Inr (st, (tree, position, base_path) # callers))))"

text \<open>
  The run of the calls. Nothing in the program bounds the depth of the trees or keeps
  a tree from holding itself, so the result is \<open>None\<close> for a run that does not end.
\<close>

partial_function (option) save_tree_loop ::
  "'a gitup_scheme \<Rightarrow> frame list \<Rightarrow> 'a gitup_scheme outcome option" where
  "save_tree_loop st frames =
     (case save_tree_step st frames of
        Inl r \<Rightarrow> Some r
      | Inr (st, frames) \<Rightarrow> save_tree_loop st frames)"

definition save_tree :: "'a gitup_scheme \<Rightarrow> string \<Rightarrow> string \<Rightarrow> 'a gitup_scheme outcome option" where
  "save_tree st sha' base_path =
     (case save_tree_enter st sha' base_path of
        Inl e \<Rightarrow> Some (Inl e)
      | Inr (st, frame') \<Rightarrow> save_tree_loop st [frame'])"

text \<open>
  One row of the manifest, \<^verbatim>\<open>snprintf(temp, BUFFER_UNIT_SMALL, "%o\t%s\t%s\n", ...)\<close>, and
  the whole manifest: the line of \<open>want\<close> and the rows of \<^verbatim>\<open>Remote_Files\<close> in the order
  of the tree.
\<close>

definition manifest_row :: "file_node \<Rightarrow> string" where
  "manifest_row file' =
     take 4095 (fmt_o (mode file') @ [CHR 0x09]
                @ (case file_sha file' of Some s \<Rightarrow> s | None \<Rightarrow> ''(null)'') @ [CHR 0x09]
                @ path file' @ [CHR 0x0A])"

definition manifest :: "string \<Rightarrow> file_node list \<Rightarrow> string" where
  "manifest want' remote = want' @ [CHR 0x0A] @ concat (map manifest_row remote)"

text \<open>
  \<^verbatim>\<open>save_objects\<close>: the object of \<open>want\<close> is looked up, its buffer has to start with
  \<^verbatim>\<open>tree \<close>, the 40 bytes after that name the tree that \<^verbatim>\<open>save_tree\<close> writes under
  \<^verbatim>\<open>path_target\<close>; then the manifest goes to \<^verbatim>\<open>remote_file_new\<close>.
\<close>

definition save_objects :: "'a gitup_scheme \<Rightarrow> 'a gitup_scheme outcome option" where
  "save_objects st =
     (case want st of
        None \<Rightarrow> Some (Inl (if Objects st = [] then Cant_find_want else Undefined_behaviour, st))
      | Some want' \<Rightarrow>
      (case RB_FIND sha (Objects st) want' of
         None \<Rightarrow> Some (Inl (Cant_find_want, st))
       | Some object' \<Rightarrow>
           if length (buffer object') < 5 then Some (Inl (Undefined_behaviour, st))
           else if take 5 (buffer object') \<noteq> bytes_of ''tree '' then
             Some (Inl (First_object_is_not_a_commit, st))
           else if length (buffer object') < 45 then Some (Inl (Undefined_behaviour, st))
           else
             (case save_tree st (string_of (c_string (take 40 (drop 5 (buffer object')))))
                     (path_target st) of
                None \<Rightarrow> None
              | Some (Inl e) \<Rightarrow> Some (Inl e)
              | Some (Inr st) \<Rightarrow>
                  (case write_file st (remote_file_new st) 420
                          (bytes_of (manifest want' (Remote_Files st))) of
                     None \<Rightarrow> Some (Inl (Write_file_failure, st))
                   | Some st \<Rightarrow> Some (Inr st)))))"

section \<open>\<^verbatim>\<open>main\<close>\<close>

text \<open>
  The loop of \<^verbatim>\<open>main\<close> over the lines of the old manifest,
  \<^verbatim>\<open>while ((line = strsep(&remote_files, "\n"))) { ... }\<close>. \<open>buf\<close> is the file with the
  NUL behind it, \<open>position\<close> where the next line starts. The first line becomes \<open>have\<close>;
  a line of more than 42 bytes is split at its tabs into mode, checksum and path, and
  the checksum is cut after 40 bytes.
\<close>

function load_remote_files ::
  "byte list \<Rightarrow> nat \<Rightarrow> nat \<Rightarrow> file_node list \<Rightarrow> string option
     \<Rightarrow> error + (file_node list \<times> string option)" where
  "load_remote_files buf position count remote have' =
     (let line_length = length (takeWhile (\<lambda>b. b \<noteq> 0x0A \<and> b \<noteq> 0) (drop position buf));
          end' = position + line_length
      in if length buf \<le> end' then Inl Undefined_behaviour
         else
           let last_line = (buf ! end' = 0);
               buf = buf[end' := 0];
               line = take line_length (drop position buf);
               have' = (if count = 0 then Some (string_of line) else have')
           in if line_length \<le> 42 then
                (if last_line then Inr (remote, have')
                 else load_remote_files buf (end' + 1) (count + 1) remote have')
              else
                (case strstr line [0x09] of
                   None \<Rightarrow> Inl Undefined_behaviour
                 | Some tab \<Rightarrow>
                     let sha' = position + tab + 1 in
                     (case strstr (drop (tab + 1) line) [0x09] of
                        None \<Rightarrow> Inl Undefined_behaviour
                      | Some tab \<Rightarrow>
                          let path' = sha' + tab + 1 in
                          if length buf \<le> sha' + 40 then Inl Undefined_behaviour
                          else
                            let buf = buf[sha' - 1 := 0, sha' + 40 := 0];
                                file' = \<lparr> mode = nat (strtol (drop position buf) 8 mod 65536),
                                          path = string_of (c_string (drop path' buf)),
                                          file_sha = Some (string_of (c_string (drop sha' buf))) \<rparr>;
                                remote = RB_INSERT path remote file'
                            in if last_line then Inr (remote, have')
                               else load_remote_files buf (end' + 1) (count + 1) remote have')))"
  by pat_completeness auto
termination
  by (relation "measure (\<lambda>(buf, position, count, remote, have'). length buf - position)") auto

declare load_remote_files.simps [simp del]

text \<open>
  \<^verbatim>\<open>main\<close> after the command line and the configuration have been read into the
  state, from \<^verbatim>\<open>if (stat(connection.path_target, &temp_file) == -1)\<close> to the loading of
  the old manifest. \<^verbatim>\<open>find_local_tree\<close> is not part of the model: \<open>Local_Files\<close> is
  what it found.
\<close>

definition main_environment :: "'a gitup_scheme \<Rightarrow> 'a gitup_scheme outcome" where
  "main_environment st =
     (let st = (if files st (path_target st) = None then st \<lparr> clone := True \<rparr> else st);
          st = mkdir st (path_work st);
          length' = length (path_work st) + 255;
          st = st \<lparr> remote_file_old := take (length' - 1) (path_work st @ ''/'' @ section_name st),
                    remote_file_new := take (length' - 1)
                                         (path_work st @ ''/'' @ section_name st @ ''.new'') \<rparr>
      in if files st (remote_file_old st) \<noteq> None then
           (case load_file st (remote_file_old st) of
              Inl e \<Rightarrow> Inl (e, st)
            | Inr remote_files \<Rightarrow>
                if remote_files = [] then Inr st
                else
                  (case load_remote_files (remote_files @ [0]) 0 0 (Remote_Files st) (have_sha st) of
                     Inl e \<Rightarrow> Inl (e, st)
                   | Inr (remote, have') \<Rightarrow>
                       Inr (st \<lparr> Remote_Files := remote, have_sha := have' \<rparr>)))
         else Inr st)"

text \<open>
  The end of \<^verbatim>\<open>main\<close>, from \<^verbatim>\<open>unpack_objects\<close> on. The deltas are applied, the files
  saved and the new manifest put in the place of the old one only when the pack held
  an object.
\<close>

definition main_save ::
  "(byte list \<Rightarrow> byte list) \<Rightarrow> (byte list \<Rightarrow> byte list \<times> nat) \<Rightarrow> (nat \<Rightarrow> byte)
     \<Rightarrow> 'a gitup_scheme \<Rightarrow> 'a gitup_scheme outcome option" where
  "main_save SHA1 inflate heap st =
     (case unpack_objects SHA1 inflate st of
        Inl e \<Rightarrow> Some (Inl (e, st))
      | Inr st \<Rightarrow>
          if 0 < length (object st) then
            (case apply_deltas SHA1 heap st of
               None \<Rightarrow> None
             | Some (Inl e) \<Rightarrow> Some (Inl (e, st))
             | Some (Inr st) \<Rightarrow>
                 (case save_objects st of
                    None \<Rightarrow> None
                  | Some (Inl e) \<Rightarrow> Some (Inl e)
                  | Some (Inr st) \<Rightarrow>
                      let st = st \<lparr> files := (files st)(remote_file_old st := None) \<rparr> in
                      (case files st (remote_file_new st) of
                         None \<Rightarrow> Some (Inl (Cannot_rename, st))
                       | Some new \<Rightarrow>
                           Some (Inr (st \<lparr> files := (files st)
                                         (remote_file_old st \<mapsto> new, remote_file_new st := None) \<rparr>)))))
          else Some (Inr st))"

text \<open>
  The whole run: the environment, \<^verbatim>\<open>get_commit_details\<close> unless a pack file is used
  and exists, \<^verbatim>\<open>fetch_pack\<close>, and the end. \<open>Inr\<close> is the return of \<^verbatim>\<open>main\<close> with 0.
\<close>

definition main ::
  "(byte list \<Rightarrow> byte list) \<Rightarrow> (byte list \<Rightarrow> byte list \<times> nat) \<Rightarrow> (nat \<Rightarrow> byte)
     \<Rightarrow> (string \<Rightarrow> byte list) \<Rightarrow> 'a gitup_scheme \<Rightarrow> 'a gitup_scheme outcome option" where
  "main SHA1 inflate heap server st =
     (case main_environment st of
        Inl e \<Rightarrow> Some (Inl e)
      | Inr st \<Rightarrow>
      (case (if \<not> use_pack_file st
                \<or> (case pack_file st of None \<Rightarrow> True | Some p \<Rightarrow> files st p = None)
             then get_commit_details server st else Inr st) of
         Inl e \<Rightarrow> Some (Inl e)
       | Inr st \<Rightarrow>
      (case fetch_pack SHA1 server st of
         Inl e \<Rightarrow> Some (Inl e)
       | Inr st \<Rightarrow> main_save SHA1 inflate heap st)))"

section \<open>The external functions at the inputs of the worked examples\<close>

text \<open>
  The theorems below hold for every \<open>SHA1\<close>, \<open>inflate\<close> and \<open>heap\<close>. The worked
  examples need values: \<open>sha1_examples\<close> is SHA-1 at the messages the examples hash, and
  \<open>inflate_examples\<close> is zlib's decompressor at the streams the example packs hold (the
  streams that zlib writes for these payloads at its default level). At any other input
  they give a fixed value that no example uses.
\<close>

definition sha1_examples :: "byte list \<Rightarrow> byte list" where
  "sha1_examples m =
     \<comment> \<open>the empty pack: \<^verbatim>\<open>PACK\<close>, version 2, no objects\<close>
     (if m = [0x50, 0x41, 0x43, 0x4b, 0x00, 0x00, 0x00, 0x02, 0x00, 0x00, 0x00, 0x00]
      then [0x02, 0x9d, 0x08, 0x82, 0x3b, 0xd8, 0xa8, 0xea, 0xb5, 0x10,
            0xad, 0x6a, 0xc7, 0x5c, 0x82, 0x3c, 0xfd, 0x3e, 0xd3, 0x1e]
      \<comment> \<open>\<^verbatim>\<open>blob 1, a NUL, C\<close>\<close>
      else if m = [0x62, 0x6c, 0x6f, 0x62, 0x20, 0x31, 0x00, 0x43]
      then [0x96, 0xd8, 0x0c, 0xd6, 0xc4, 0xe7, 0x15, 0x8d, 0xbe, 0xbd,
            0x08, 0x49, 0xf4, 0xfb, 0x7c, 0xe5, 0x13, 0xe5, 0x82, 0x8c]
      \<comment> \<open>\<^verbatim>\<open>blob 4, a NUL, AAAA\<close>\<close>
      else if m = [0x62, 0x6c, 0x6f, 0x62, 0x20, 0x34, 0x00, 0x41, 0x41, 0x41, 0x41]
      then [0xa9, 0xa2, 0x2e, 0x66, 0xdb, 0xef, 0x55, 0xa4, 0xbf, 0xba,
            0x52, 0x8d, 0xac, 0xaa, 0x22, 0x53, 0x14, 0x5d, 0xc4, 0x4d]
      \<comment> \<open>\<^verbatim>\<open>blob 4, a NUL, BAAA\<close>\<close>
      else if m = [0x62, 0x6c, 0x6f, 0x62, 0x20, 0x34, 0x00, 0x42, 0x41, 0x41, 0x41]
      then [0x88, 0x55, 0x9a, 0x6a, 0x09, 0x22, 0xa8, 0x27, 0x78, 0xe2,
            0x15, 0xa6, 0x14, 0x90, 0xc6, 0x08, 0x4c, 0xd6, 0x41, 0x23]
      \<comment> \<open>\<^verbatim>\<open>ofs-delta 7, a NUL, \<close> and the delta \<^verbatim>\<open>04 04 01 42 91 01 03\<close>\<close>
      else if m = [0x6f, 0x66, 0x73, 0x2d, 0x64, 0x65, 0x6c, 0x74, 0x61, 0x20, 0x37, 0x00,
                   0x04, 0x04, 0x01, 0x42, 0x91, 0x01, 0x03]
      then [0xb2, 0xcd, 0xea, 0xa0, 0x9d, 0x07, 0x97, 0xb2, 0x33, 0xf4,
            0xf3, 0xf5, 0xc5, 0xcd, 0x98, 0x0e, 0xe1, 0x0d, 0x78, 0x84]
      \<comment> \<open>\<^verbatim>\<open>ref-delta 7, a NUL, \<close> and the same delta\<close>
      else if m = [0x72, 0x65, 0x66, 0x2d, 0x64, 0x65, 0x6c, 0x74, 0x61, 0x20, 0x37, 0x00,
                   0x04, 0x04, 0x01, 0x42, 0x91, 0x01, 0x03]
      then [0x79, 0xf2, 0x89, 0xbf, 0x86, 0x86, 0x3c, 0xcd, 0x08, 0x8c,
            0x74, 0x2a, 0x19, 0x72, 0xa0, 0xcc, 0xc4, 0x31, 0x1d, 0xfb]
      \<comment> \<open>\<^verbatim>\<open> 4, a NUL, AAAA\<close>: the header of an object of type 5, whose type name is empty\<close>
      else if m = [0x20, 0x34, 0x00, 0x41, 0x41, 0x41, 0x41]
      then [0xe8, 0xd2, 0x2f, 0x6c, 0xce, 0xff, 0x87, 0x29, 0x7f, 0x22,
            0x0e, 0x8c, 0x75, 0x42, 0x58, 0x5d, 0x2f, 0xd8, 0x97, 0x81]
      else replicate 20 0)"

definition inflate_examples :: "byte list \<Rightarrow> byte list \<times> nat" where
  "inflate_examples input =
     \<comment> \<open>\<^verbatim>\<open>C\<close>\<close>
     (if take 9 input = [0x78, 0x9c, 0x73, 0x06, 0x00, 0x00, 0x44, 0x00, 0x44]
      then ([0x43], 9)
      \<comment> \<open>\<^verbatim>\<open>AAAA\<close>\<close>
      else if take 12 input = [0x78, 0x9c, 0x73, 0x74, 0x74, 0x74, 0x04, 0x00, 0x02, 0x8e, 0x01, 0x05]
      then ([0x41, 0x41, 0x41, 0x41], 12)
      \<comment> \<open>the delta \<^verbatim>\<open>04 04 01 42 91 01 03\<close>\<close>
      else if take 15 input = [0x78, 0x9c, 0x63, 0x61, 0x61, 0x74, 0x9a, 0xc8, 0xc8, 0x0c, 0x00,
                               0x03, 0x00, 0x00, 0xe1]
      then ([0x04, 0x04, 0x01, 0x42, 0x91, 0x01, 0x03], 15)
      else ([], 0))"

section \<open>Example inputs\<close>

text \<open>A connection as \<^verbatim>\<open>main\<close> sets it up for the section \<^verbatim>\<open>ports\<close> of the configuration file.\<close>

definition example_connection :: connector where
  "example_connection =
     \<lparr> object = [], Objects = [], agent = None, section_name = ''ports'',
       repository = ''/ports.git'', branch = ''main'', have_sha = None, want = None,
       response = [], clone = False, pack_file = None,
       path_target = ''/usr/ports'', path_work = ''/var/db/gitup'',
       remote_file_old = ''/var/db/gitup/ports'', remote_file_new = ''/var/db/gitup/ports.new'',
       keep_pack_file = False, use_pack_file = False \<rparr>"


definition wrong_source_size_delta :: object_node where
  "wrong_source_size_delta =
     \<lparr> sha = ''b4face1ed8b4626abe074d423cc977d5c9b61cef'', type = 6, index = 2, index_delta = 1,
       ref_delta_sha = None, pack_offset = 35, buffer = [0x09, 0x04, 0x90, 0x04],
       buffer_size = 4, data_size = 4 \<rparr>"

definition zero_instruction_delta :: object_node where
  "zero_instruction_delta =
     \<lparr> sha = ''e86145d98010dc19d561b4787883bec140efed8b'', type = 6, index = 2, index_delta = 1,
       ref_delta_sha = None, pack_offset = 35, buffer = [0x04, 0x04, 0x00, 0x90, 0x04],
       buffer_size = 5, data_size = 5 \<rparr>"

text \<open>
  A pack of three objects: the blob \<^verbatim>\<open>C\<close> at offset 12, the blob \<^verbatim>\<open>AAAA\<close> at 22 and, at
  35, an ofs-delta on the entry 13 bytes before it that turns \<^verbatim>\<open>AAAA\<close> into \<^verbatim>\<open>BAAA\<close>.
\<close>

definition three_object_pack :: "byte list" where
  "three_object_pack =
     [0x50, 0x41, 0x43, 0x4b, 0x00, 0x00, 0x00, 0x02, 0x00, 0x00, 0x00, 0x03,
      0x31, 0x78, 0x9c, 0x73, 0x06, 0x00, 0x00, 0x44, 0x00, 0x44,
      0x34, 0x78, 0x9c, 0x73, 0x74, 0x74, 0x74, 0x04, 0x00, 0x02, 0x8e, 0x01, 0x05,
      0x67, 0x0d, 0x78, 0x9c, 0x63, 0x61, 0x61, 0x74, 0x9a, 0xc8, 0xc8, 0x0c, 0x00, 0x03, 0x00, 0x00, 0xe1,
      0xe9, 0xa6, 0x9a, 0x24, 0x14, 0x14, 0xdb, 0x7a, 0xd3, 0x57,
      0x81, 0x15, 0x73, 0xdb, 0xb4, 0xe8, 0x7f, 0x8e, 0x85, 0x3e]"

text \<open>
  A pack of two objects: the blob \<^verbatim>\<open>AAAA\<close> at offset 12 and, at 25, a ref-delta whose
  base checksum is the blob's, \<^verbatim>\<open>a9a22e66dbef55a4bfba528dacaa2253145dc44d\<close>, with the same
  delta.
\<close>

definition ref_delta_pack :: "byte list" where
  "ref_delta_pack =
     [0x50, 0x41, 0x43, 0x4b, 0x00, 0x00, 0x00, 0x02, 0x00, 0x00, 0x00, 0x02,
      0x34, 0x78, 0x9c, 0x73, 0x74, 0x74, 0x74, 0x04, 0x00, 0x02, 0x8e, 0x01, 0x05,
      0x77, 0xa9, 0xa2, 0x2e, 0x66, 0xdb, 0xef, 0x55, 0xa4, 0xbf, 0xba,
      0x52, 0x8d, 0xac, 0xaa, 0x22, 0x53, 0x14, 0x5d, 0xc4, 0x4d,
      0x78, 0x9c, 0x63, 0x61, 0x61, 0x74, 0x9a, 0xc8, 0xc8, 0x0c, 0x00, 0x03, 0x00, 0x00, 0xe1,
      0x20, 0x9e, 0xd6, 0x76, 0x19, 0x89, 0x71, 0xa4, 0x74, 0x6e,
      0xd6, 0x99, 0xc7, 0xac, 0x11, 0xfe, 0x8f, 0xb4, 0x76, 0x82]"

text \<open>A pack of one object whose type code is the reserved 5, with the payload \<^verbatim>\<open>AAAA\<close>.\<close>

definition reserved_type_pack :: "byte list" where
  "reserved_type_pack =
     [0x50, 0x41, 0x43, 0x4b, 0x00, 0x00, 0x00, 0x02, 0x00, 0x00, 0x00, 0x01,
      0x54, 0x78, 0x9c, 0x73, 0x74, 0x74, 0x74, 0x04, 0x00, 0x02, 0x8e, 0x01, 0x05,
      0x6d, 0xbf, 0x9f, 0x73, 0xec, 0x89, 0x25, 0x5b, 0x62, 0x26,
      0xfc, 0x7b, 0xf9, 0xa7, 0xfe, 0xef, 0x9a, 0x39, 0x15, 0x0f]"

text \<open>
  The objects \<^verbatim>\<open>unpack_objects\<close> stores from these packs, and the object the resolver adds
  to the first.
\<close>

definition three_objects :: "object_node list" where
  "three_objects =
     [\<lparr> sha = ''96d80cd6c4e7158dbebd0849f4fb7ce513e5828c'', type = 3, index = 0, index_delta = 0,
         ref_delta_sha = None, pack_offset = 12, buffer = [0x43], buffer_size = 1, data_size = 1 \<rparr>,
      \<lparr> sha = ''a9a22e66dbef55a4bfba528dacaa2253145dc44d'', type = 3, index = 1, index_delta = 0,
         ref_delta_sha = None, pack_offset = 22, buffer = [0x41, 0x41, 0x41, 0x41],
         buffer_size = 4, data_size = 4 \<rparr>,
      \<lparr> sha = ''b2cdeaa09d0797b233f4f3f5c5cd980ee10d7884'', type = 6, index = 2, index_delta = 1,
         ref_delta_sha = None, pack_offset = 35, buffer = [0x04, 0x04, 0x01, 0x42, 0x91, 0x01, 0x03],
         buffer_size = 7, data_size = 7 \<rparr>]"

definition resolved_object :: object_node where
  "resolved_object =
     \<lparr> sha = ''88559a6a0922a82778e215a61490c6084cd64123'', type = 3, index = 3, index_delta = 0,
       ref_delta_sha = None, pack_offset = 0, buffer = [0x42, 0x41, 0x41, 0x41],
       buffer_size = 4, data_size = 4 \<rparr>"

definition reserved_type_object :: object_node where
  "reserved_type_object =
     \<lparr> sha = ''e8d22f6cceff87297f220e8c7542585d2fd89781'', type = 5, index = 0, index_delta = 0,
       ref_delta_sha = None, pack_offset = 12, buffer = [0x41, 0x41, 0x41, 0x41],
       buffer_size = 4, data_size = 4 \<rparr>"

definition ref_delta_objects :: "object_node list" where
  "ref_delta_objects =
     [\<lparr> sha = ''a9a22e66dbef55a4bfba528dacaa2253145dc44d'', type = 3, index = 0, index_delta = 0,
         ref_delta_sha = None, pack_offset = 12, buffer = [0x41, 0x41, 0x41, 0x41],
         buffer_size = 4, data_size = 4 \<rparr>,
      \<lparr> sha = ''79f289bf86863ccd088c742a1972a0ccc4311dfb'', type = 7, index = 1, index_delta = 0,
         ref_delta_sha = Some ''a9a22e66dbef55a4bfba528dacaa2253145dc44d'', pack_offset = 25,
         buffer = [0x04, 0x04, 0x01, 0x42, 0x91, 0x01, 0x03], buffer_size = 7, data_size = 7 \<rparr>]"

section \<open>Example runs\<close>

text \<open>
  A server whose branch \<^verbatim>\<open>main\<close> is at the commit \<open>tip\<close> and that answers every fetch
  with a pack of no objects. \<open>refs_advertisement\<close> is the body that
  \<^verbatim>\<open>process_command\<close> leaves for the \<^verbatim>\<open>GET\<close> of \<^verbatim>\<open>get_commit_details\<close>,
  \<open>empty_pack_answer\<close> the one for the \<^verbatim>\<open>POST\<close>: the line \<^verbatim>\<open>NAK\<close>, one packet line
  with the pack on band 1, the flush packet. Both end with the line break that is left
  of the last chunk of the transfer.
\<close>

definition tip :: string where
  "tip = ''09cf90d07df0cb8637f4a5be786d4d62f7072dac''"

definition refs_advertisement :: "byte list" where
  "refs_advertisement =
     bytes_of ''001e# service=git-upload-pack'' @ [0x0A] @ bytes_of ''0000''
     @ bytes_of (''0043'' @ tip @ '' HEAD'') @ [0x00] @ bytes_of ''agent=git/github'' @ [0x0A]
     @ bytes_of (''003d'' @ tip @ '' refs/heads/main'') @ [0x0A]
     @ bytes_of ''0000'' @ [0x0D, 0x0A]"

definition empty_pack :: "byte list" where
  "empty_pack =
     [0x50, 0x41, 0x43, 0x4b, 0x00, 0x00, 0x00, 0x02, 0x00, 0x00, 0x00, 0x00,
      0x02, 0x9d, 0x08, 0x82, 0x3b, 0xd8, 0xa8, 0xea, 0xb5, 0x10,
      0xad, 0x6a, 0xc7, 0x5c, 0x82, 0x3c, 0xfd, 0x3e, 0xd3, 0x1e]"

definition empty_pack_answer :: "byte list" where
  "empty_pack_answer =
     bytes_of ''0008NAK'' @ [0x0A] @ bytes_of ''0025'' @ [0x01] @ empty_pack
     @ bytes_of ''0000'' @ [0x0D, 0x0A]"

definition empty_pack_server :: "string \<Rightarrow> byte list" where
  "empty_pack_server command =
     (if take 4 command = ''GET '' then refs_advertisement else empty_pack_answer)"

text \<open>
  \<open>clone_session\<close> is the state in which \<^verbatim>\<open>main\<close> starts for the section
  \<^verbatim>\<open>ports\<close> when neither the target directory nor the work directory exists.
\<close>

definition clone_session :: gitup where
  "clone_session =
     \<lparr> object = [], Objects = [], agent = None, section_name = ''ports'',
       repository = ''/ports.git'', branch = ''main'', have_sha = None, want = None,
       response = [], clone = False, pack_file = None,
       path_target = ''/usr/ports'', path_work = ''/var/db/gitup'',
       remote_file_old = [], remote_file_new = [],
       keep_pack_file = False, use_pack_file = False,
       Local_Files = [], Remote_Files = [], files = Map.empty, sent = [] \<rparr>"

text \<open>
  \<open>pull_session\<close> is the state of a later run: the target holds the file \<^verbatim>\<open>a\<close> with
  the bytes \<^verbatim>\<open>AAAA\<close>, and the manifest of the last run names \<open>tip\<close> and that file.
\<close>

definition old_manifest :: "byte list" where
  "old_manifest =
     bytes_of tip @ [0x0A]
     @ bytes_of ''100644'' @ [0x09] @ bytes_of ''a9a22e66dbef55a4bfba528dacaa2253145dc44d'' @ [0x09]
     @ bytes_of ''/usr/ports/a'' @ [0x0A]"

definition pull_session :: gitup where
  "pull_session =
     clone_session
       \<lparr> Local_Files := [\<lparr> mode = 33188, path = ''/usr/ports/a'',
                           file_sha = Some ''a9a22e66dbef55a4bfba528dacaa2253145dc44d'' \<rparr>],
         files := [''/usr/ports'' \<mapsto> Directory,
                   ''/usr/ports/a'' \<mapsto> Regular 420 [0x41, 0x41, 0x41, 0x41],
                   ''/var/db/gitup'' \<mapsto> Directory,
                   ''/var/db/gitup/ports'' \<mapsto> Regular 420 old_manifest] \<rparr>"

text \<open>
  The state before \<^verbatim>\<open>fetch_pack\<close> in the run of \<open>pull_session\<close>: the manifest is
  loaded and the advertisement read, so \<open>have\<close> and \<open>want\<close> are both \<open>tip\<close>.
\<close>

definition pull_session_before_fetch :: gitup where
  "pull_session_before_fetch =
     pull_session
       \<lparr> agent := Some ''agent=git/github'', have_sha := Some tip, want := Some tip,
         response := map (\<lambda>b. if b = 0 then 0x0A else b) refs_advertisement,
         remote_file_old := ''/var/db/gitup/ports'', remote_file_new := ''/var/db/gitup/ports.new'',
         Remote_Files := [\<lparr> mode = 33188, path = ''/usr/ports/a'',
                            file_sha = Some ''a9a22e66dbef55a4bfba528dacaa2253145dc44d'' \<rparr>],
         sent := [''GET /ports.git/info/refs?service=git-upload-pack HTTP/1.1'' @ [CHR 0x0A]
                  @ ''Host: github.com'' @ [CHR 0x0A]
                  @ ''User-Agent: git/2.28'' @ [CHR 0x0A]
                  @ [CHR 0x0D, CHR 0x0A]] \<rparr>"

text \<open>
  A store with one commit: its tree holds the file \<^verbatim>\<open>a\<close>, the directory \<^verbatim>\<open>d\<close> with
  the executable file \<^verbatim>\<open>b\<close>, and the symbolic link \<^verbatim>\<open>l\<close>, whose blob is the target
  \<^verbatim>\<open>a\<close> and a NUL. The checksums are those of git for these objects.
\<close>

definition commit_object :: object_node where
  "commit_object =
     \<lparr> sha = ''09cf90d07df0cb8637f4a5be786d4d62f7072dac'', type = 1, index = 0, index_delta = 0,
       ref_delta_sha = None, pack_offset = 12,
       buffer = bytes_of ''tree d0360d22c90dfa31c6a68969ec2778de192e1705'' @ [0x0A]
                @ bytes_of ''author A <a@example.org> 0 +0000'' @ [0x0A]
                @ bytes_of ''committer A <a@example.org> 0 +0000'' @ [0x0A, 0x0A]
                @ bytes_of ''first'' @ [0x0A],
       buffer_size = 122, data_size = 122 \<rparr>"

definition root_tree :: object_node where
  "root_tree =
     \<lparr> sha = ''d0360d22c90dfa31c6a68969ec2778de192e1705'', type = 2, index = 1, index_delta = 0,
       ref_delta_sha = None, pack_offset = 100,
       buffer = bytes_of ''100644 a'' @ [0x00,
                  0xa9, 0xa2, 0x2e, 0x66, 0xdb, 0xef, 0x55, 0xa4, 0xbf, 0xba,
                  0x52, 0x8d, 0xac, 0xaa, 0x22, 0x53, 0x14, 0x5d, 0xc4, 0x4d]
                @ bytes_of ''40000 d'' @ [0x00,
                  0x6f, 0xb6, 0xa5, 0xc2, 0x59, 0xf5, 0xa7, 0x49, 0x55, 0xe1,
                  0x24, 0x20, 0x2a, 0xec, 0x9d, 0x2b, 0xf2, 0x3c, 0xbf, 0xce]
                @ bytes_of ''120000 l'' @ [0x00,
                  0x90, 0x80, 0x2f, 0xed, 0xc2, 0x46, 0x2f, 0x10, 0xbf, 0x21,
                  0x14, 0xd0, 0x86, 0xca, 0xcb, 0x9e, 0x3a, 0xf9, 0x9f, 0xfb],
       buffer_size = 86, data_size = 86 \<rparr>"

definition d_tree :: object_node where
  "d_tree =
     \<lparr> sha = ''6fb6a5c259f5a74955e124202aec9d2bf23cbfce'', type = 2, index = 2, index_delta = 0,
       ref_delta_sha = None, pack_offset = 200,
       buffer = bytes_of ''100755 b'' @ [0x00,
                  0x88, 0x55, 0x9a, 0x6a, 0x09, 0x22, 0xa8, 0x27, 0x78, 0xe2,
                  0x15, 0xa6, 0x14, 0x90, 0xc6, 0x08, 0x4c, 0xd6, 0x41, 0x23],
       buffer_size = 29, data_size = 29 \<rparr>"

definition a_blob :: object_node where
  "a_blob =
     \<lparr> sha = ''a9a22e66dbef55a4bfba528dacaa2253145dc44d'', type = 3, index = 3, index_delta = 0,
       ref_delta_sha = None, pack_offset = 240,
       buffer = [0x41, 0x41, 0x41, 0x41], buffer_size = 4, data_size = 4 \<rparr>"

definition b_blob :: object_node where
  "b_blob =
     \<lparr> sha = ''88559a6a0922a82778e215a61490c6084cd64123'', type = 3, index = 4, index_delta = 0,
       ref_delta_sha = None, pack_offset = 260,
       buffer = [0x42, 0x41, 0x41, 0x41], buffer_size = 4, data_size = 4 \<rparr>"

definition l_blob :: object_node where
  "l_blob =
     \<lparr> sha = ''90802fedc2462f10bf2114d086cacb9e3af99ffb'', type = 3, index = 5, index_delta = 0,
       ref_delta_sha = None, pack_offset = 280,
       buffer = [0x61, 0x00], buffer_size = 2, data_size = 2 \<rparr>"

text \<open>The rows of the two files of that tree.\<close>

definition two_rows :: "file_node list" where
  "two_rows =
     [\<lparr> mode = 33188, path = ''/usr/ports/a'',
         file_sha = Some ''a9a22e66dbef55a4bfba528dacaa2253145dc44d'' \<rparr>,
      \<lparr> mode = 33261, path = ''/usr/ports/d/b'',
         file_sha = Some ''88559a6a0922a82778e215a61490c6084cd64123'' \<rparr>]"

text \<open>The state of a first run before \<^verbatim>\<open>save_objects\<close>, with that store.\<close>

definition first_save :: gitup where
  "first_save =
     clone_session
       \<lparr> object := [commit_object, root_tree, d_tree, a_blob, b_blob, l_blob],
         Objects := [commit_object, d_tree, b_blob, l_blob, a_blob, root_tree],
         want := Some tip, clone := True,
         remote_file_old := ''/var/db/gitup/ports'', remote_file_new := ''/var/db/gitup/ports.new'',
         files := [''/var/db/gitup'' \<mapsto> Directory] \<rparr>"

text \<open>
  The state of a later run before \<^verbatim>\<open>save_objects\<close>, with the same store, when the
  files \<^verbatim>\<open>a\<close> and \<^verbatim>\<open>d/b\<close> are as the tree has them and have their rows in
  \<^verbatim>\<open>Remote_Files\<close>. In \<open>later_save_file\<close> a file with
  the bytes of the blob of \<^verbatim>\<open>l\<close> stands at the path of the link; in \<open>later_save_link\<close>
  the link of the first run stands there, for which the local scan has no checksum.
\<close>

definition later_save_file :: gitup where
  "later_save_file =
     first_save
       \<lparr> clone := False,
         Local_Files :=
           [\<lparr> mode = 33188, path = ''/usr/ports/a'',
               file_sha = Some ''a9a22e66dbef55a4bfba528dacaa2253145dc44d'' \<rparr>,
            \<lparr> mode = 33261, path = ''/usr/ports/d/b'',
               file_sha = Some ''88559a6a0922a82778e215a61490c6084cd64123'' \<rparr>,
            \<lparr> mode = 33188, path = ''/usr/ports/l'',
               file_sha = Some ''90802fedc2462f10bf2114d086cacb9e3af99ffb'' \<rparr>],
         Remote_Files := two_rows,
         files := [''/var/db/gitup'' \<mapsto> Directory,
                   ''/var/db/gitup/ports'' \<mapsto> Regular 420 (bytes_of (manifest tip two_rows)),
                   ''/usr/ports'' \<mapsto> Directory,
                   ''/usr/ports/a'' \<mapsto> Regular 420 [0x41, 0x41, 0x41, 0x41],
                   ''/usr/ports/d'' \<mapsto> Directory,
                   ''/usr/ports/d/b'' \<mapsto> Regular 493 [0x42, 0x41, 0x41, 0x41],
                   ''/usr/ports/l'' \<mapsto> Regular 420 [0x61, 0x00]] \<rparr>"

definition later_save_link :: gitup where
  "later_save_link =
     first_save
       \<lparr> clone := False,
         Local_Files :=
           [\<lparr> mode = 33188, path = ''/usr/ports/a'',
               file_sha = Some ''a9a22e66dbef55a4bfba528dacaa2253145dc44d'' \<rparr>,
            \<lparr> mode = 33261, path = ''/usr/ports/d/b'',
               file_sha = Some ''88559a6a0922a82778e215a61490c6084cd64123'' \<rparr>,
            \<lparr> mode = 41453, path = ''/usr/ports/l'', file_sha = None \<rparr>],
         Remote_Files := two_rows,
         files := [''/var/db/gitup'' \<mapsto> Directory,
                   ''/var/db/gitup/ports'' \<mapsto> Regular 420 (bytes_of (manifest tip two_rows)),
                   ''/usr/ports'' \<mapsto> Directory,
                   ''/usr/ports/a'' \<mapsto> Regular 420 [0x41, 0x41, 0x41, 0x41],
                   ''/usr/ports/d'' \<mapsto> Directory,
                   ''/usr/ports/d/b'' \<mapsto> Regular 493 [0x42, 0x41, 0x41, 0x41],
                   ''/usr/ports/l'' \<mapsto> Symlink ''a''] \<rparr>"

section \<open>The codec round trips\<close>

lemma int_of_char_of:
  assumes "m < 256"
  shows "(of_char (char_of (m :: nat)) :: int) = int m"
proof -
  have "(of_char (char_of m) :: int) = int (of_char (char_of m))"
    by (simp only: of_nat_of_char)
  also have "\<dots> = int m"
    using assms by simp
  finally show ?thesis .
qed

lemma hex_digit_value:
  assumes "n < 16"
  shows "(of_char (hex_digit n) :: int) - (if 58 < plain_char (hex_digit n) then 87 else 48) = int n"
proof (cases "n < 10")
  case True
  then have "(of_char (hex_digit n) :: int) = int (48 + n)"
    unfolding hex_digit_def by (simp only: if_True) (rule int_of_char_of, simp)
  with True show ?thesis
    by (simp add: plain_char_def)
next
  case False
  with assms have "(of_char (hex_digit n) :: int) = int (87 + n)"
    unfolding hex_digit_def by (simp only: if_False) (rule int_of_char_of, simp)
  with False assms show ?thesis
    by (simp add: plain_char_def)
qed




lemma lower_hex_cases:
  assumes "lower_hex c"
  obtains n where "n < 16" and "c = hex_digit n"
proof (cases "(of_char c :: nat) \<le> 57")
  case True
  with assms have r: "48 \<le> (of_char c :: nat)"
    by (simp add: lower_hex_def)
  define n where "n = (of_char c :: nat) - 48"
  from True r have n: "n < 10" "48 + n = of_char c"
    by (simp_all add: n_def)
  have "hex_digit n = c"
    using n(1) by (simp add: hex_digit_def n(2))
  with n(1) show ?thesis
    using that [of n] by simp
next
  case False
  with assms have r: "97 \<le> (of_char c :: nat)" "(of_char c :: nat) \<le> 102"
    by (simp_all add: lower_hex_def)
  define n where "n = (of_char c :: nat) - 87"
  from r have n: "\<not> n < 10" "n < 16" "87 + n = of_char c"
    by (simp_all add: n_def)
  have "hex_digit n = c"
    using n(1) by (simp add: hex_digit_def n(3))
  with n(2) show ?thesis
    using that [of n] by simp
qed

lemma fmt_illegible_byte:
  assumes "lower_hex c1" and "lower_hex c2"
  shows "fmt_02x (illegible_byte c1 c2) = [c1, c2]"
proof -
  from assms(1) obtain n1 where n1: "n1 < 16" "c1 = hex_digit n1"
    by (rule lower_hex_cases)
  from assms(2) obtain n2 where n2: "n2 < 16" "c2 = hex_digit n2"
    by (rule lower_hex_cases)
  have "illegible_byte c1 c2 = word_of_int (16 * int n1 + int n2)"
    unfolding illegible_byte_def n1(2) n2(2)
    using hex_digit_value [OF n1(1)] hex_digit_value [OF n2(1)] by (simp add: algebra_simps)
  also have "\<dots> = (word_of_int (int (16 * n1 + n2)) :: byte)"
    by simp
  finally have "unat (illegible_byte c1 c2) = (16 * n1 + n2) mod 256"
    by (simp only: word_of_int_nat of_nat_0_le_iff nat_int unat_of_nat) simp
  then have "unat (illegible_byte c1 c2) = 16 * n1 + n2"
    using n1(1) n2(1) by simp
  with n1 n2 show ?thesis
    by (simp add: fmt_02x_def)
qed

lemma concat_pairs:
  "concat (map (\<lambda>x. [s ! (x * 2), s ! Suc (x * 2)]) [0..<n]) = map (\<lambda>i. s ! i) [0..<n * 2]"
  by (induction n) simp_all

lemma legible_illegible:
  assumes "length s = 40" and "\<forall>c \<in> set s. lower_hex c"
  shows "legible_sha (illegible_sha s) = s"
proof -
  have pair: "fmt_02x (illegible_byte (s ! (x * 2)) (s ! Suc (x * 2))) = [s ! (x * 2), s ! Suc (x * 2)]"
    if "x < 20" for x
    using that assms by (intro fmt_illegible_byte) simp_all
  have eq: "map (\<lambda>x. fmt_02x (illegible_byte (s ! (x * 2)) (s ! Suc (x * 2)))) [0..<20]
      = map (\<lambda>x. [s ! (x * 2), s ! Suc (x * 2)]) [0..<20]"
    by (rule map_cong [OF refl]) (simp add: pair)
  have "legible_sha (illegible_sha s)
      = concat (map (\<lambda>x. fmt_02x (illegible_byte (s ! (x * 2)) (s ! Suc (x * 2)))) [0..<20])"
    by (simp add: legible_sha_def illegible_sha_def comp_def)
  also have "\<dots> = concat (map (\<lambda>x. [s ! (x * 2), s ! Suc (x * 2)]) [0..<20])"
    by (simp only: eq)
  also have "\<dots> = map (\<lambda>i. s ! i) [0..<40]"
    by (simp only: concat_pairs) simp
  also have "\<dots> = s"
    using assms(1) map_nth [of s] by simp
  finally show ?thesis .
qed





















section \<open>The object store and the resolver: what the tree holds\<close>

lemma RB_FIND_key: "RB_FIND key t k = Some n \<Longrightarrow> key n = k \<and> n \<in> set t"
  by (induction t) (auto split: if_splits)

lemma RB_FIND_None: "RB_FIND key t k = None \<longleftrightarrow> k \<notin> key ` set t"
  by (induction t) auto

lemma set_RB_INSERT: "set (RB_INSERT key t e) \<subseteq> insert e (set t)"
  by (induction t) auto

lemma RB_FIND_RB_INSERT: "RB_FIND key (RB_INSERT key t e) (key e) \<noteq> None"
  by (induction t) auto

text \<open>
  C8. When the checksum of an object is already in the tree, \<^verbatim>\<open>store_object\<close> leaves
  the whole state as it was: the array and the tree.
\<close>

theorem store_object_idempotent:
  assumes "RB_FIND sha (Objects connection) (calculate_object_sha SHA1 b n t) \<noteq> None"
  shows "store_object SHA1 connection t b n po idx rds = connection"
  using assms by (auto simp: store_object_def Let_def split: option.splits)

lemma store_object_twice:
  assumes "t < 6"
  shows "store_object SHA1 (store_object SHA1 connection t b n po idx rds) t b n po' idx' rds'
       = store_object SHA1 connection t b n po idx rds"
proof (cases "RB_FIND sha (Objects connection) (calculate_object_sha SHA1 b n t)")
  case None
  let ?o = "\<lparr> sha = calculate_object_sha SHA1 b n t, type = t, index = length (object connection),
                 index_delta = idx, ref_delta_sha = map_option legible_sha rds,
                 pack_offset = po, buffer = b, buffer_size = n, data_size = n \<rparr>"
  have "RB_FIND sha (RB_INSERT sha (Objects connection) ?o) (sha ?o) \<noteq> None"
    by (rule RB_FIND_RB_INSERT)
  with None assms show ?thesis
    by (auto simp: store_object_def Let_def split: option.splits)
next
  case (Some a)
  then show ?thesis
    by (simp add: store_object_def)
qed

lemma concrete_RB_INSERT: "concrete t \<Longrightarrow> type e < 6 \<Longrightarrow> concrete (RB_INSERT sha t e)"
  using set_RB_INSERT [of sha t e] by (auto simp: concrete_def list_all_iff)

lemma concrete_store_object:
  "concrete (Objects connection) \<Longrightarrow> concrete (Objects (store_object SHA1 connection t b n po idx rds))"
  by (auto simp: store_object_def Let_def concrete_RB_INSERT split: option.splits)

lemma concrete_RB_FIND: "concrete t \<Longrightarrow> RB_FIND sha t k = Some n \<Longrightarrow> type n < 6"
  by (auto dest!: RB_FIND_key simp: concrete_def list_all_iff)

lemma apply_deltas_body_cases:
  assumes "apply_deltas_body SHA1 heap ob st = Inr st'"
  obtains (skip) "st' = st"
  | (stored) base merge_buffer n where
      "RB_FIND sha (Objects (fst st)) (sha base) = Some base"
      "fst st' = store_object SHA1 (fst st) (type base) merge_buffer n 0 0 None"
proof (cases st)
  case (fields connection layer_buffer new_file_size)
  show thesis
  proof (cases "type (object connection ! ob) < 6")
    case True
    with assms fields have "st' = st"
      by (simp add: apply_deltas_body_def Let_def)
    then show thesis by (rule skip)
  next
    case False
    with assms fields obtain delta deltas
      where f: "follow_ofs_deltas (object connection) (object connection ! ob) [] = Inr (delta, deltas)"
      by (auto simp: apply_deltas_body_def Let_def split: sum.splits)
    with assms fields False obtain base
      where b: "RB_FIND sha (Objects connection) (sha delta) = Some base"
      by (auto simp: apply_deltas_body_def Let_def split: option.splits)
    with assms fields False f obtain mb0
      where m: "memcpy (realloc heap [] (buffer_size base)) 0 (buffer base) 0 (buffer_size base) = Inr mb0"
      by (auto simp: apply_deltas_body_def Let_def split: sum.splits)
    with assms fields False f b obtain mb lb nfs
      where l: "apply_layers heap (object connection) (rev deltas) mb0 layer_buffer new_file_size
                  = Inr (mb, lb, nfs)"
      by (auto simp: apply_deltas_body_def Let_def split: sum.splits)
    with assms fields False f b m
    have "fst st' = store_object SHA1 connection (type base) mb (unat nfs) 0 0 None"
      by (auto simp: apply_deltas_body_def Let_def split: if_splits)
    moreover from b have "sha base = sha delta"
      by (auto dest: RB_FIND_key)
    ultimately show thesis
      using b fields by (intro stored [of base mb "unat nfs"]) simp_all
  qed
qed

lemma concrete_body:
  assumes "concrete (Objects (fst st))" and "apply_deltas_body SHA1 heap ob st = Inr st'"
  shows "concrete (Objects (fst st'))"
  using assms(2)
proof (cases rule: apply_deltas_body_cases)
  case skip
  with assms(1) show ?thesis by simp
next
  case (stored base merge_buffer n)
  with assms(1) show ?thesis
    by (simp add: concrete_store_object)
qed

lemma concrete_loop:
  assumes "apply_deltas_loop SHA1 heap ob st = Some y"
  shows "concrete (Objects (fst st)) \<longrightarrow> (\<forall>s'. y = Inr s' \<longrightarrow> concrete (Objects s'))"
proof (rule apply_deltas_loop.raw_induct
    [where P = "\<lambda>H hp i s r. concrete (Objects (fst s)) \<longrightarrow> (\<forall>s'. r = Inr s' \<longrightarrow> concrete (Objects s'))",
     OF _ assms])
  fix loop :: "(byte list \<Rightarrow> byte list) \<Rightarrow> (nat \<Rightarrow> byte) \<Rightarrow> nat \<Rightarrow> 'a store_scheme \<times> byte list \<times> 32 word
     \<Rightarrow> (error + 'a store_scheme) option"
  fix H hp i s r
  assume IH: "\<And>H hp i s r. loop H hp i s = Some r \<Longrightarrow>
      concrete (Objects (fst s)) \<longrightarrow> (\<forall>s'. r = Inr s' \<longrightarrow> concrete (Objects s'))"
  assume body: "(if i < length (object (fst s))
      then case apply_deltas_body H hp i s of Inl e \<Rightarrow> Some (Inl e) | Inr st' \<Rightarrow> loop H hp (i + 1) st'
      else Some (Inr (fst s))) = Some r"
  show "concrete (Objects (fst s)) \<longrightarrow> (\<forall>s'. r = Inr s' \<longrightarrow> concrete (Objects s'))"
  proof (cases "i < length (object (fst s))")
    case False
    with body show ?thesis by auto
  next
    case True
    show ?thesis
    proof (cases "apply_deltas_body H hp i s")
      case (Inl e)
      with True body show ?thesis by auto
    next
      case (Inr st')
      with True body have "loop H hp (i + 1) st' = Some r" by simp
      then have "concrete (Objects (fst st')) \<longrightarrow> (\<forall>s'. r = Inr s' \<longrightarrow> concrete (Objects s'))"
        by (rule IH)
      with concrete_body [OF _ Inr] show ?thesis by blast
    qed
  qed
qed

lemma apply_deltas_concrete:
  assumes "concrete (Objects connection)" and "apply_deltas SHA1 heap connection = Some (Inr s')"
  shows "concrete (Objects s')"
  using concrete_loop [of SHA1 heap 0 "(connection, [], 0)" "Inr s'"] assms
  by (simp add: apply_deltas_def)


lemma response_store_object [simp]:
  "response (store_object SHA1 connection t b n po idx rds) = response connection"
  by (simp add: store_object_def Let_def split: option.splits)

lemma concrete_unpack_objects_loop:
  assumes "unpack_objects_loop SHA1 inflate total_objects position connection = Inr s"
    and "concrete (Objects connection)"
  shows "concrete (Objects s)"
  using assms
proof (induction "nat total_objects" arbitrary: total_objects position connection)
  case 0
  then show ?case
    by (simp add: unpack_objects_loop.simps [of SHA1 inflate total_objects])
next
  case (Suc n)
  show ?case
  proof (cases "position < length (response connection) \<and> 0 < total_objects")
    case False
    with Suc.prems show ?thesis
      by (simp add: unpack_objects_loop.simps [of SHA1 inflate total_objects])
  next
    case True
    with Suc.prems(1) obtain position' t b po idx rds
      where rec: "unpack_objects_loop SHA1 inflate (total_objects - 1) position'
               (store_object SHA1 connection t b (length b) po idx rds) = Inr s"
      by (auto simp: unpack_objects_loop.simps [of SHA1 inflate total_objects] Let_def
               split: sum.splits prod.splits if_splits)
    from Suc.hyps(2) have n: "n = nat (total_objects - 1)"
      by simp
    from Suc.prems(2)
    have "concrete (Objects (store_object SHA1 connection t b (length b) po idx rds))"
      by (rule concrete_store_object)
    with n rec show ?thesis
      by (rule Suc.hyps(1))
  qed
qed

lemma concrete_unpack_objects:
  assumes "unpack_objects SHA1 inflate connection = Inr s" and "concrete (Objects connection)"
  shows "concrete (Objects s)"
  using assms concrete_unpack_objects_loop
  by (auto simp: unpack_objects_def Let_def split: if_splits)

text \<open>
  C9 (as amended). After \<^verbatim>\<open>unpack_objects\<close> on an empty tree and a run of
  \<^verbatim>\<open>apply_deltas\<close> that ends without an error, every object found in the tree by its
  checksum has a type code below 6: it is neither an ofs-delta nor a ref-delta.
\<close>

theorem resolved_store_holds_no_delta:
  assumes "Objects connection = []"
    and "unpack_objects SHA1 inflate connection = Inr s"
    and "apply_deltas SHA1 heap s = Some (Inr s')"
    and "RB_FIND sha (Objects s') k = Some n"
  shows "type n < 6"
proof -
  from assms(1) have "concrete (Objects connection)"
    by (simp add: concrete_def)
  with assms(2) have "concrete (Objects s)"
    by (rule concrete_unpack_objects)
  then have "concrete (Objects s')"
    using assms(3) by (rule apply_deltas_concrete)
  then show ?thesis
    using assms(4) by (rule concrete_RB_FIND)
qed

section \<open>One delta application\<close>


lemma memcpy_bounds:
  "memcpy dst dst_pos src src_pos n = Inr dst' \<Longrightarrow> dst_pos + n \<le> length dst \<and> src_pos + n \<le> length src"
  by (auto simp: memcpy_def split: if_splits)

lemma realloc_length: "length buf \<le> n \<Longrightarrow> length (realloc heap buf n) = n"
  by (simp add: realloc_def)

lemma realloc_take: "length buf \<le> n \<Longrightarrow> take (length buf) (realloc heap buf n) = buf"
  by (simp add: realloc_def)













text \<open>
  C6 (as amended). An instruction byte 0 is decoded as an insert of no bytes: the loop
  goes on at the next byte with the layer buffer and \<open>new_position\<close> as they were.
\<close>

theorem zero_instruction_is_empty_insert:
  assumes "position < data_size delta"
    and "position < length (buffer delta)"
    and "buffer delta ! position = 0"
    and "new_position \<le> new_file_size"
    and "unat new_position \<le> length layer_buffer"
  shows "decode_instruction (buffer delta) position = Inr (From_delta_buffer, position + 1, 0, position + 1)
       \<and> delta_instructions delta merge_buffer layer_buffer new_file_size position new_position
         = delta_instructions delta merge_buffer layer_buffer new_file_size (position + 1) new_position"
proof -
  from assms(3)
  have dec: "decode_instruction (buffer delta) position = Inr (From_delta_buffer, position + 1, 0, position + 1)"
    by (simp add: decode_instruction_def)
  from assms(2,5)
  have cp: "memcpy layer_buffer (unat new_position) (buffer delta) (position + 1) 0 = Inr layer_buffer"
    by (simp add: memcpy_def)
  from assms(4) have chk: "\<not> new_file_size < new_position"
    by (rule leD)
  from assms(1,2) dec cp chk
  have "delta_instructions delta merge_buffer layer_buffer new_file_size position new_position
      = delta_instructions delta merge_buffer layer_buffer new_file_size (position + 1) new_position"
    by (subst delta_instructions.simps) simp
  with dec show ?thesis by simp
qed

lemma drop_eq_mono:
  assumes "drop p xs = drop p ys" and "p \<le> q"
  shows "drop q xs = drop q ys"
proof -
  from assms(2) have "drop q xs = drop (q - p) (drop p xs)" "drop q ys = drop (q - p) (drop p ys)"
    by simp_all
  with assms(1) show ?thesis
    by simp
qed

lemma drop_eq_nth:
  assumes "drop p xs = drop p ys" and "length xs = length ys" and "p \<le> i" and "i < length ys"
  shows "xs ! i = ys ! i"
proof -
  from assms(2,3,4) have "xs ! i = drop p xs ! (i - p)" "ys ! i = drop p ys ! (i - p)"
    by simp_all
  with assms(1) show ?thesis
    by simp
qed

lemma unpack_variable_length_integer_loop_cong:
  assumes "drop p data' = drop p data" and "length data' = length data" and "p \<le> position"
  shows "unpack_variable_length_integer_loop data' position count result
       = unpack_variable_length_integer_loop data position count result"
  using assms
proof (induction data position count result rule: unpack_variable_length_integer_loop.induct)
  case (1 data position count result)
  show ?case
  proof (cases "length data \<le> position")
    case True
    then have "unpack_variable_length_integer_loop data position count result = Inl Undefined_behaviour"
      by (subst unpack_variable_length_integer_loop.simps) simp
    moreover from True "1.prems"(2)
    have "unpack_variable_length_integer_loop data' position count result = Inl Undefined_behaviour"
      by (subst unpack_variable_length_integer_loop.simps) simp
    ultimately show ?thesis
      by simp
  next
    case False
    with "1.prems" have n: "data' ! position = data ! position"
      by (intro drop_eq_nth [of p]) simp_all
    show ?thesis
    proof (cases "data ! position AND 0x80 \<noteq> 0")
      case True
      from "1.IH" [OF False refl True "1.prems"(1,2)] "1.prems"(3)
      have "unpack_variable_length_integer_loop data' (position + 1) (count + 1)
              (result + push_bit (7 * count mod 32) (ucast (data ! position AND 0x7F)))
          = unpack_variable_length_integer_loop data (position + 1) (count + 1)
              (result + push_bit (7 * count mod 32) (ucast (data ! position AND 0x7F)))"
        by simp
      moreover from False True
      have "unpack_variable_length_integer_loop data position count result
          = unpack_variable_length_integer_loop data (position + 1) (count + 1)
              (result + push_bit (7 * count mod 32) (ucast (data ! position AND 0x7F)))"
        by (subst unpack_variable_length_integer_loop.simps) (simp add: Let_def)
      moreover from False True n "1.prems"(2)
      have "unpack_variable_length_integer_loop data' position count result
          = unpack_variable_length_integer_loop data' (position + 1) (count + 1)
              (result + push_bit (7 * count mod 32) (ucast (data ! position AND 0x7F)))"
        by (subst unpack_variable_length_integer_loop.simps) (simp add: Let_def)
      ultimately show ?thesis
        by simp
    next
      case c: False
      from False c
      have "unpack_variable_length_integer_loop data position count result
          = Inr (result + push_bit (7 * count mod 32) (ucast (data ! position AND 0x7F)), position + 1)"
        by (subst unpack_variable_length_integer_loop.simps) (simp add: Let_def)
      moreover from False c n "1.prems"(2)
      have "unpack_variable_length_integer_loop data' position count result
          = Inr (result + push_bit (7 * count mod 32) (ucast (data ! position AND 0x7F)), position + 1)"
        by (subst unpack_variable_length_integer_loop.simps) (simp add: Let_def)
      ultimately show ?thesis
        by simp
    qed
  qed
qed

lemma unpack_delta_integer_cong:
  assumes "drop p data' = drop p data" and "length data' = length data" and "p \<le> position"
  shows "unpack_delta_integer data' position bits = unpack_delta_integer data position bits"
proof -
  have n: "data' ! i = data ! i" if "position \<le> i" and "i < length data" for i
    using assms that by (intro drop_eq_nth [of p]) simp_all
  show ?thesis
    unfolding unpack_delta_integer_def Let_def assms(2)
    by (auto simp: n)
qed


lemma decode_instruction_cong:
  assumes "drop p data' = drop p data" and "length data' = length data"
    and "p \<le> position" and "position < length data"
  shows "decode_instruction data' position = decode_instruction data position"
proof -
  from assms have n: "data' ! position = data ! position"
    by (intro drop_eq_nth [of p]) simp_all
  have u: "unpack_delta_integer data' q bits = unpack_delta_integer data q bits" if "position \<le> q" for q bits
    using assms(1,2) by (rule unpack_delta_integer_cong) (use that assms(3) in simp)
  have u1: "unpack_delta_integer data' (position + 1) bits = unpack_delta_integer data (position + 1) bits"
    for bits
    by (rule u) simp
  show ?thesis
  proof (cases "data ! position AND 0x80 \<noteq> 0")
    case False
    with n show ?thesis
      by (simp add: decode_instruction_def Let_def)
  next
    case True
    show ?thesis
    proof (cases "unpack_delta_integer data (position + 1) (unat (data ! position AND 0x0F))")
      case (Inl e)
      with True n u1 show ?thesis
        by (simp add: decode_instruction_def Let_def)
    next
      case (Inr r)
      obtain offset q where r: "r = (offset, q)"
        by (cases r)
      from Inr r have "position + 1 \<le> q"
        by (auto dest: unpack_delta_integer_position)
      then have "unpack_delta_integer data' q bits = unpack_delta_integer data q bits" for bits
        by (intro u) simp
      with True n u1 Inr r show ?thesis
        by (simp add: decode_instruction_def Let_def)
    qed
  qed
qed

lemma memcpy_cong:
  assumes "drop p src' = drop p src" and "length src' = length src" and "p \<le> src_pos"
  shows "memcpy dst dst_pos src' src_pos n = memcpy dst dst_pos src src_pos n"
proof -
  from assms(1,3) have "drop src_pos src' = drop src_pos src"
    by (rule drop_eq_mono)
  with assms(2) show ?thesis
    by (simp add: memcpy_def)
qed

lemma decode_instruction_offset:
  assumes "decode_instruction data position = Inr (From_delta_buffer, offset, len, position')"
  shows "position < offset"
  using assms
  by (auto simp: decode_instruction_def Let_def split: if_splits sum.splits)


lemma delta_instructions_end:
  "\<not> position < data_size delta \<Longrightarrow>
   delta_instructions delta merge_buffer layer_buffer new_file_size position new_position
     = Inr (layer_buffer, new_position)"
  by (subst delta_instructions.simps) simp

lemma delta_instructions_outside:
  "position < data_size delta \<Longrightarrow> length (buffer delta) \<le> position \<Longrightarrow>
   delta_instructions delta merge_buffer layer_buffer new_file_size position new_position
     = Inl Undefined_behaviour"
  by (subst delta_instructions.simps) simp

lemma delta_instructions_undecoded:
  "position < data_size delta \<Longrightarrow> position < length (buffer delta) \<Longrightarrow>
   decode_instruction (buffer delta) position = Inl e \<Longrightarrow>
   delta_instructions delta merge_buffer layer_buffer new_file_size position new_position = Inl e"
  by (subst delta_instructions.simps) simp

lemma delta_instructions_decoded:
  "position < data_size delta \<Longrightarrow> position < length (buffer delta) \<Longrightarrow>
   decode_instruction (buffer delta) position = Inr (src, offset, len, position') \<Longrightarrow>
   delta_instructions delta merge_buffer layer_buffer new_file_size position new_position
     = (if new_file_size < new_position + len then Inl Position_overflow
        else case memcpy layer_buffer (unat new_position)
                    (case src of From_merge_buffer \<Rightarrow> merge_buffer | From_delta_buffer \<Rightarrow> buffer delta)
                    offset (unat len) of
               Inl e \<Rightarrow> Inl e
             | Inr layer_buffer \<Rightarrow>
                 delta_instructions delta merge_buffer layer_buffer new_file_size position'
                   (new_position + len))"
  by (subst delta_instructions.simps) simp


lemma delta_instructions_cong:
  assumes "drop p (buffer delta') = drop p (buffer delta)"
    and "length (buffer delta') = length (buffer delta)"
    and "data_size delta' = data_size delta"
    and "p \<le> position"
  shows "delta_instructions delta' merge_buffer layer_buffer new_file_size position new_position
       = delta_instructions delta merge_buffer layer_buffer new_file_size position new_position"
  using assms
proof (induction delta merge_buffer layer_buffer new_file_size position new_position
       rule: delta_instructions.induct)
  case (1 delta merge_buffer layer_buffer new_file_size position new_position)
  show ?case
  proof (cases "position < data_size delta")
    case False
    with "1.prems"(3) have "\<not> position < data_size delta'"
      by simp
    with False show ?thesis
      by (simp add: delta_instructions_end)
  next
    case t: True
    with "1.prems"(3) have t': "position < data_size delta'"
      by simp
    show ?thesis
    proof (cases "length (buffer delta) \<le> position")
      case True
      with "1.prems"(2) have "length (buffer delta') \<le> position"
        by simp
      with True t t' show ?thesis
        by (simp add: delta_instructions_outside)
    next
      case False
      then have inb: "position < length (buffer delta)"
        by simp
      with "1.prems"(2) have inb': "position < length (buffer delta')"
        by simp
      from "1.prems"(1,2,4) inb
      have dec: "decode_instruction (buffer delta') position = decode_instruction (buffer delta) position"
        by (rule decode_instruction_cong)
      show ?thesis
      proof (cases "decode_instruction (buffer delta) position")
        case (Inl e)
        with dec have "decode_instruction (buffer delta') position = Inl e"
          by simp
        from delta_instructions_undecoded [OF t' inb' this] delta_instructions_undecoded [OF t inb Inl]
        show ?thesis
          by simp
      next
        case (Inr r)
        obtain src offset len position' where r: "r = (src, offset, len, position')"
          by (cases r)
        from Inr r have d: "decode_instruction (buffer delta) position = Inr (src, offset, len, position')"
          by simp
        with dec have d': "decode_instruction (buffer delta') position = Inr (src, offset, len, position')"
          by simp
        from d have pp: "position < position'"
          by (rule decode_instruction_position)
        have cp: "memcpy layer_buffer (unat new_position)
                    (case src of From_merge_buffer \<Rightarrow> merge_buffer | From_delta_buffer \<Rightarrow> buffer delta')
                    offset (unat len)
                = memcpy layer_buffer (unat new_position)
                    (case src of From_merge_buffer \<Rightarrow> merge_buffer | From_delta_buffer \<Rightarrow> buffer delta)
                    offset (unat len)"
        proof (cases src)
          case From_merge_buffer
          then show ?thesis by simp
        next
          case From_delta_buffer
          with d have "position < offset"
            by (intro decode_instruction_offset) simp
          with "1.prems"(4) have "p \<le> offset"
            by simp
          with "1.prems"(1,2) have "memcpy layer_buffer (unat new_position) (buffer delta') offset (unat len)
              = memcpy layer_buffer (unat new_position) (buffer delta) offset (unat len)"
            by (rule memcpy_cong)
          with From_delta_buffer show ?thesis
            by simp
        qed
        note u = delta_instructions_decoded [OF t inb d, of merge_buffer layer_buffer new_file_size new_position]
        note u' = delta_instructions_decoded [OF t' inb' d', of merge_buffer layer_buffer new_file_size new_position]
        show ?thesis
        proof (cases "new_file_size < new_position + len")
          case True
          with u u' show ?thesis
            by simp
        next
          case chk: False
          show ?thesis
          proof (cases "memcpy layer_buffer (unat new_position)
                    (case src of From_merge_buffer \<Rightarrow> merge_buffer | From_delta_buffer \<Rightarrow> buffer delta)
                    offset (unat len)")
            case (Inl e)
            with u u' chk cp show ?thesis
              by simp
          next
            case (Inr lb1)
            from pp "1.prems"(4) have "p \<le> position'"
              by simp
            from "1.IH" [OF t False d refl refl refl chk Inr "1.prems"(1,2,3) this]
            have "delta_instructions delta' merge_buffer lb1 new_file_size position' (new_position + len)
                = delta_instructions delta merge_buffer lb1 new_file_size position' (new_position + len)" .
            with u u' chk cp Inr show ?thesis
              by simp
          qed
        qed
      qed
    qed
  qed
qed

lemma memcpy_append:
  "memcpy dst dst_pos src src_pos n = Inr r \<Longrightarrow> memcpy dst dst_pos (src @ extra) src_pos n = Inr r"
  by (auto simp: memcpy_def split: if_splits)

lemma delta_instructions_longer_base:
  assumes "delta_instructions delta merge_buffer layer_buffer new_file_size position new_position = Inr r"
  shows "delta_instructions delta (merge_buffer @ extra) layer_buffer new_file_size position new_position = Inr r"
  using assms
proof (induction delta merge_buffer layer_buffer new_file_size position new_position
       rule: delta_instructions.induct)
  case (1 delta merge_buffer layer_buffer new_file_size position new_position)
  show ?case
  proof (cases "position < data_size delta")
    case False
    with "1.prems" show ?thesis
      by (simp add: delta_instructions.simps)
  next
    case True
    with "1.prems"(1) have inb: "\<not> length (buffer delta) \<le> position"
      by (auto simp: delta_instructions.simps [of delta merge_buffer layer_buffer] split: if_splits)
    with True "1.prems"(1) obtain src offset len position'
      where dec: "decode_instruction (buffer delta) position = Inr (src, offset, len, position')"
      by (auto simp: delta_instructions.simps [of delta merge_buffer layer_buffer] split: sum.splits)
    with True inb "1.prems"(1) have chk: "\<not> new_file_size < new_position + len"
      by (auto simp: delta_instructions.simps [of delta merge_buffer layer_buffer] split: if_splits)
    with True inb dec "1.prems"(1) obtain lb1
      where cp: "memcpy layer_buffer (unat new_position)
                   (case src of From_merge_buffer \<Rightarrow> merge_buffer | From_delta_buffer \<Rightarrow> buffer delta)
                   offset (unat len) = Inr lb1"
      by (auto simp: delta_instructions.simps [of delta merge_buffer layer_buffer] split: sum.splits)
    with True inb dec chk "1.prems"(1)
    have rec: "delta_instructions delta merge_buffer lb1 new_file_size position' (new_position + len) = Inr r"
      by (simp add: delta_instructions.simps [of delta merge_buffer layer_buffer])
    have cp': "memcpy layer_buffer (unat new_position)
                   (case src of From_merge_buffer \<Rightarrow> merge_buffer @ extra | From_delta_buffer \<Rightarrow> buffer delta)
                   offset (unat len) = Inr lb1"
      using cp by (cases src) (simp_all add: memcpy_append)
    from "1.IH" [OF True inb dec refl refl refl chk cp rec]
    have "delta_instructions delta (merge_buffer @ extra) lb1 new_file_size position' (new_position + len) = Inr r" .
    with True inb dec chk cp' show ?thesis
      by (simp add: delta_instructions.simps [of delta "merge_buffer @ extra" layer_buffer])
  qed
qed

lemma apply_delta_longer_base:
  assumes "apply_delta heap delta merge_buffer layer_buffer = Inr (merge_buffer', layer_buffer', new_file_size)"
  shows "\<exists>merge_buffer''.
           apply_delta heap delta (merge_buffer @ extra) layer_buffer
             = Inr (merge_buffer'', layer_buffer', new_file_size) \<and>
           take (unat new_file_size) merge_buffer'' = take (unat new_file_size) merge_buffer'"
proof -
  let ?n = "unat new_file_size"
  from assms obtain old_file_size p1 where h1:
    "unpack_variable_length_integer (buffer delta) 0 = Inr (old_file_size, p1)"
    by (auto simp: apply_delta_def split: sum.splits)
  with assms obtain nfs p2 where h2:
    "unpack_variable_length_integer (buffer delta) p1 = Inr (nfs, p2)"
    by (auto simp: apply_delta_def split: sum.splits)
  with assms h1 have small: "\<not> 2147483648 \<le> unat nfs"
    by (auto simp: apply_delta_def split: if_splits)
  let ?lb = "if length layer_buffer < unat nfs then realloc heap layer_buffer (unat nfs) else layer_buffer"
  from assms h1 h2 small obtain lb1 np1 where di:
    "delta_instructions delta merge_buffer ?lb nfs p2 0 = Inr (lb1, np1)"
    by (auto simp: apply_delta_def Let_def split: sum.splits)
  let ?mb = "if length merge_buffer < unat nfs then realloc heap merge_buffer (unat nfs) else merge_buffer"
  from assms h1 h2 small di obtain mb1 where cp: "memcpy ?mb 0 lb1 0 (unat nfs) = Inr mb1"
    by (auto simp: apply_delta_def Let_def split: sum.splits)
  with assms h1 h2 small di have eqs: "merge_buffer' = mb1" "layer_buffer' = lb1" "new_file_size = nfs"
    by (simp_all add: apply_delta_def Let_def)
  from cp have bounds: "unat nfs \<le> length ?mb" "unat nfs \<le> length lb1"
    by (auto dest: memcpy_bounds)
  from cp have mb1: "mb1 = take (unat nfs) lb1 @ drop (unat nfs) ?mb"
    by (auto simp: memcpy_def split: if_splits)
  let ?mbx = "if length (merge_buffer @ extra) < unat nfs
              then realloc heap (merge_buffer @ extra) (unat nfs) else merge_buffer @ extra"
  have "unat nfs \<le> length ?mbx"
    by (auto simp: realloc_length)
  with bounds(2) have cpx: "memcpy ?mbx 0 lb1 0 (unat nfs) = Inr (take (unat nfs) lb1 @ drop (unat nfs) ?mbx)"
    by (simp add: memcpy_def)
  from di have "delta_instructions delta (merge_buffer @ extra) ?lb nfs p2 0 = Inr (lb1, np1)"
    by (rule delta_instructions_longer_base)
  with h1 h2 small cpx
  have "apply_delta heap delta (merge_buffer @ extra) layer_buffer
          = Inr (take (unat nfs) lb1 @ drop (unat nfs) ?mbx, lb1, nfs)"
    by (simp add: apply_delta_def Let_def)
  moreover from bounds(2) mb1
  have "take (unat nfs) (take (unat nfs) lb1 @ drop (unat nfs) ?mbx) = take (unat nfs) mb1"
    by simp
  ultimately show ?thesis
    using eqs by blast
qed


lemma unpack_variable_length_integer_loop_position:
  assumes "unpack_variable_length_integer_loop data position count result = Inr (v, p)"
  shows "p \<le> length data"
  using assms
proof (induction data position count result rule: unpack_variable_length_integer_loop.induct)
  case (1 data position count result)
  from "1.prems" have inb: "\<not> length data \<le> position"
    by (auto simp: unpack_variable_length_integer_loop.simps [of data position] split: if_splits)
  show ?case
  proof (cases "data ! position AND 0x80 \<noteq> 0")
    case True
    with inb "1.prems"
    have "unpack_variable_length_integer_loop data (position + 1) (count + 1)
            (result + push_bit (7 * count mod 32) (ucast (data ! position AND 0x7F))) = Inr (v, p)"
      by (simp add: unpack_variable_length_integer_loop.simps [of data position] Let_def)
    from "1.IH" [OF inb refl True this] show ?thesis .
  next
    case False
    with inb "1.prems" have "p = position + 1"
      by (simp add: unpack_variable_length_integer_loop.simps [of data position] Let_def)
    with inb show ?thesis
      by simp
  qed
qed

lemma apply_delta_header:
  assumes "unpack_variable_length_integer (buffer delta) 0 = Inr (old_file_size, p1)"
    and "unpack_variable_length_integer (buffer delta') 0 = Inr (old_file_size', p1)"
    and "drop p1 (buffer delta') = drop p1 (buffer delta)"
    and "data_size delta' = data_size delta"
  shows "apply_delta heap delta' merge_buffer layer_buffer
       = apply_delta heap delta merge_buffer layer_buffer"
proof -
  from assms(1) have "p1 \<le> length (buffer delta)"
    unfolding unpack_variable_length_integer_def by (rule unpack_variable_length_integer_loop_position)
  moreover from assms(2) have "p1 \<le> length (buffer delta')"
    unfolding unpack_variable_length_integer_def by (rule unpack_variable_length_integer_loop_position)
  moreover from assms(3) have "length (buffer delta') - p1 = length (buffer delta) - p1"
    by (simp only: length_drop [symmetric])
  ultimately have len: "length (buffer delta') = length (buffer delta)"
    by arith
  have h2: "unpack_variable_length_integer (buffer delta') p1 = unpack_variable_length_integer (buffer delta) p1"
    unfolding unpack_variable_length_integer_def
    using assms(3) len by (rule unpack_variable_length_integer_loop_cong) simp
  show ?thesis
  proof (cases "unpack_variable_length_integer (buffer delta) p1")
    case (Inl e)
    with assms(1,2) h2 show ?thesis
      by (simp add: apply_delta_def)
  next
    case (Inr r)
    obtain new_file_size p2 where r: "r = (new_file_size, p2)"
      by (cases r)
    have pos: "p1 \<le> p2"
    proof -
      have "position \<le> p" if "unpack_variable_length_integer_loop data position count result = Inr (v, p)"
        for data position count result v p
        using that
      proof (induction data position count result rule: unpack_variable_length_integer_loop.induct)
        case (1 data position count result)
        from "1.prems" have inb: "\<not> length data \<le> position"
          by (auto simp: unpack_variable_length_integer_loop.simps [of data position] split: if_splits)
        show ?case
        proof (cases "data ! position AND 0x80 \<noteq> 0")
          case True
          with inb "1.prems"
          have "unpack_variable_length_integer_loop data (position + 1) (count + 1)
                  (result + push_bit (7 * count mod 32) (ucast (data ! position AND 0x7F))) = Inr (v, p)"
            by (simp add: unpack_variable_length_integer_loop.simps [of data position] Let_def)
          from "1.IH" [OF inb refl True this] show ?thesis
            by simp
        next
          case False
          with inb "1.prems" have "p = position + 1"
            by (simp add: unpack_variable_length_integer_loop.simps [of data position] Let_def)
          then show ?thesis
            by simp
        qed
      qed
      with Inr r show ?thesis
        unfolding unpack_variable_length_integer_def by blast
    qed
    from assms(3) len assms(4) pos
    have di: "delta_instructions delta' merge_buffer lb new_file_size p2 0
            = delta_instructions delta merge_buffer lb new_file_size p2 0" for lb
      by (rule delta_instructions_cong)
    from assms(1,2) h2 Inr r di show ?thesis
      by (simp add: apply_delta_def Let_def)
  qed
qed

text \<open>
  C5 (as amended). The first header value of a delta, the size of the source, is decoded
  only to find where the second value starts. Two deltas that differ in nothing but the
  bytes of that first value apply to every merge buffer with the same outcome, error or
  result: no outcome depends on the size the delta declares for its source. Nor does
  one depend on the length of the base beyond the bytes the copy instructions read: a
  delta that applies to a base applies to every buffer that extends the base, with the
  same layer buffer, the same size and the same bytes.
\<close>

theorem source_size_is_not_checked:
  "(unpack_variable_length_integer (buffer delta) 0 = Inr (old_file_size, p1) \<and>
    unpack_variable_length_integer (buffer delta') 0 = Inr (old_file_size', p1) \<and>
    drop p1 (buffer delta') = drop p1 (buffer delta) \<and>
    data_size delta' = data_size delta \<longrightarrow>
    apply_delta heap delta' merge_buffer layer_buffer
      = apply_delta heap delta merge_buffer layer_buffer)
   \<and>
   (apply_delta heap delta merge_buffer layer_buffer = Inr (merge_buffer', layer_buffer', new_file_size) \<longrightarrow>
    (\<exists>merge_buffer''.
       apply_delta heap delta (merge_buffer @ extra) layer_buffer
         = Inr (merge_buffer'', layer_buffer', new_file_size) \<and>
       take (unat new_file_size) merge_buffer'' = take (unat new_file_size) merge_buffer'))"
proof (intro conjI impI)
  assume "unpack_variable_length_integer (buffer delta) 0 = Inr (old_file_size, p1) \<and>
    unpack_variable_length_integer (buffer delta') 0 = Inr (old_file_size', p1) \<and>
    drop p1 (buffer delta') = drop p1 (buffer delta) \<and>
    data_size delta' = data_size delta"
  then show "apply_delta heap delta' merge_buffer layer_buffer
      = apply_delta heap delta merge_buffer layer_buffer"
    by (intro apply_delta_header [of delta old_file_size p1 delta' old_file_size']) simp_all
next
  assume "apply_delta heap delta merge_buffer layer_buffer = Inr (merge_buffer', layer_buffer', new_file_size)"
  then show "\<exists>merge_buffer''.
       apply_delta heap delta (merge_buffer @ extra) layer_buffer
         = Inr (merge_buffer'', layer_buffer', new_file_size) \<and>
       take (unat new_file_size) merge_buffer'' = take (unat new_file_size) merge_buffer'"
    by (rule apply_delta_longer_base)
qed

section \<open>The base of a ref-delta\<close>

text \<open>
  C2. For an object of type 7 the chain of ofs-deltas is empty, and the base is looked
  up in the tree by the checksum of the ref-delta entry itself, not by its
  \<open>ref_delta_sha\<close>: when that checksum is not in the tree the resolver stops with
  \<open>Cant_find_base\<close>, whatever the tree holds under \<open>ref_delta_sha\<close>.
\<close>

theorem ref_delta_base_is_looked_up_by_own_checksum:
  assumes "type (object connection ! ob) = 7"
    and "RB_FIND sha (Objects connection) (sha (object connection ! ob)) = None"
  shows "apply_deltas_body SHA1 heap ob (connection, layer_buffer, new_file_size) = Inl Cant_find_base"
  using assms by (simp add: apply_deltas_body_def follow_ofs_deltas.simps)

section \<open>Worked examples: the object store and the resolver\<close>

text \<open>Rules for evaluating the model on the example inputs.\<close>

lemmas eval_rules = bit_Suc_0_iff Let_def numeral_2_eq_2 [symmetric] upt_conv_Cons

lemmas delta_eval = apply_delta_def unpack_variable_length_integer_def
  unpack_variable_length_integer_loop.simps delta_instructions.simps decode_instruction_def
  unpack_delta_integer_def memcpy_def realloc_def

lemmas sha_eval = calculate_object_sha_def types_def digits_loop.simps fmt_u.simps bytes_of_def
  byte_of_char_def sha1_examples_def legible_sha_def fmt_02x_def hex_digit_def char_of_def

lemma sha_blob_C: "calculate_object_sha sha1_examples [0x43] (Suc 0) 3 = ''96d80cd6c4e7158dbebd0849f4fb7ce513e5828c''"
  by (simp add: eval_rules sha_eval)

lemma sha_blob_AAAA:
  "calculate_object_sha sha1_examples [0x41, 0x41, 0x41, 0x41] 4 3 = ''a9a22e66dbef55a4bfba528dacaa2253145dc44d''"
  by (simp add: eval_rules sha_eval)

lemma sha_blob_BAAA:
  "calculate_object_sha sha1_examples [0x42, 0x41, 0x41, 0x41] 4 3 = ''88559a6a0922a82778e215a61490c6084cd64123''"
  by (simp add: eval_rules sha_eval)

lemma sha_ofs_delta:
  "calculate_object_sha sha1_examples [0x04, 0x04, 0x01, 0x42, 0x91, 0x01, 0x03] 7 6 = ''b2cdeaa09d0797b233f4f3f5c5cd980ee10d7884''"
  by (simp add: eval_rules sha_eval)

lemma sha_ref_delta:
  "calculate_object_sha sha1_examples [0x04, 0x04, 0x01, 0x42, 0x91, 0x01, 0x03] 7 7 = ''79f289bf86863ccd088c742a1972a0ccc4311dfb''"
  by (simp add: eval_rules sha_eval)

lemma sha_reserved:
  "calculate_object_sha sha1_examples [0x41, 0x41, 0x41, 0x41] 4 5 = ''e8d22f6cceff87297f220e8c7542585d2fd89781''"
  by (simp add: eval_rules sha_eval)

lemmas sha_values = sha_blob_C sha_blob_AAAA sha_blob_BAAA sha_ofs_delta sha_ref_delta sha_reserved

lemmas unpack_eval = unpack_objects_def unpack_objects_loop.simps extract_file_size.simps
  extract_lookup_offset.simps find_ofs_delta_base.simps store_object_def inflate_examples_def

text \<open>
  The integers of the pack are decoded in 32 bits: a size of six bytes takes its last
  shift modulo 32, and a distance of five bytes wraps.
\<close>

lemma unpack_variable_length_integer_six_bytes:
  "unpack_variable_length_integer [0x80, 0x80, 0x80, 0x80, 0x80, 0x01] 0 = Inr (8, 6)"
  by (simp add: eval_rules delta_eval)

lemma extract_lookup_offset_five_bytes:
  "extract_lookup_offset [0x8e, 0xfe, 0xfe, 0xff, 0x0d] 0 0 = Inr (14, 5)"
  by (simp add: eval_rules unpack_eval)

lemma unpack_three:
  "unpack_objects sha1_examples inflate_examples (example_connection \<lparr> response := three_object_pack \<rparr>)
   = Inr (example_connection
            \<lparr> object := three_objects,
              Objects := [three_objects ! 0, three_objects ! 1],
              response := three_object_pack \<rparr>)"
  by (simp add: eval_rules unpack_eval sha_values example_connection_def three_object_pack_def three_objects_def)


lemmas resolver_eval = apply_deltas_def apply_deltas_loop.simps apply_deltas_body_def
  follow_ofs_deltas.simps store_object_def

lemma resolve_three:
  "apply_deltas sha1_examples heap
     (example_connection
        \<lparr> object := three_objects,
          Objects := [three_objects ! 0, three_objects ! 1],
          response := three_object_pack \<rparr>)
   = Some (Inr (example_connection
        \<lparr> object := three_objects @ [resolved_object],
          Objects := [resolved_object, three_objects ! 0, three_objects ! 1],
          response := three_object_pack \<rparr>))"
  by (simp add: eval_rules resolver_eval delta_eval sha_values example_connection_def three_objects_def
        resolved_object_def)


theorem resolved_store_holds_no_delta_witness:
  "\<forall>heap.
     Objects (example_connection \<lparr> response := three_object_pack \<rparr>) = [] \<and>
     unpack_objects sha1_examples inflate_examples (example_connection \<lparr> response := three_object_pack \<rparr>)
       = Inr (example_connection
                \<lparr> object := three_objects,
                  Objects := [three_objects ! 0, three_objects ! 1],
                  response := three_object_pack \<rparr>) \<and>
     apply_deltas sha1_examples heap
       (example_connection
          \<lparr> object := three_objects,
            Objects := [three_objects ! 0, three_objects ! 1],
            response := three_object_pack \<rparr>)
       = Some (Inr (example_connection
            \<lparr> object := three_objects @ [resolved_object],
              Objects := [resolved_object, three_objects ! 0, three_objects ! 1],
              response := three_object_pack \<rparr>)) \<and>
     RB_FIND sha
       (Objects (example_connection
            \<lparr> object := three_objects @ [resolved_object],
              Objects := [resolved_object, three_objects ! 0, three_objects ! 1],
              response := three_object_pack \<rparr>))
       ''88559a6a0922a82778e215a61490c6084cd64123'' = Some resolved_object \<and>
     type resolved_object < 6"
proof
  fix heap :: "nat \<Rightarrow> byte"
  have e: "Objects (example_connection \<lparr> response := three_object_pack \<rparr>) = []"
    by (simp add: example_connection_def)
  have f: "RB_FIND sha
       (Objects (example_connection
            \<lparr> object := three_objects @ [resolved_object],
              Objects := [resolved_object, three_objects ! 0, three_objects ! 1],
              response := three_object_pack \<rparr>))
       ''88559a6a0922a82778e215a61490c6084cd64123'' = Some resolved_object"
    by (simp add: resolved_object_def)
  from resolved_store_holds_no_delta [OF e unpack_three resolve_three [of heap] f]
    e unpack_three resolve_three [of heap] f
  show "Objects (example_connection \<lparr> response := three_object_pack \<rparr>) = [] \<and>
     unpack_objects sha1_examples inflate_examples (example_connection \<lparr> response := three_object_pack \<rparr>)
       = Inr (example_connection
                \<lparr> object := three_objects,
                  Objects := [three_objects ! 0, three_objects ! 1],
                  response := three_object_pack \<rparr>) \<and>
     apply_deltas sha1_examples heap
       (example_connection
          \<lparr> object := three_objects,
            Objects := [three_objects ! 0, three_objects ! 1],
            response := three_object_pack \<rparr>)
       = Some (Inr (example_connection
            \<lparr> object := three_objects @ [resolved_object],
              Objects := [resolved_object, three_objects ! 0, three_objects ! 1],
              response := three_object_pack \<rparr>)) \<and>
     RB_FIND sha
       (Objects (example_connection
            \<lparr> object := three_objects @ [resolved_object],
              Objects := [resolved_object, three_objects ! 0, three_objects ! 1],
              response := three_object_pack \<rparr>))
       ''88559a6a0922a82778e215a61490c6084cd64123'' = Some resolved_object \<and>
     type resolved_object < 6"
    by blast
qed

text \<open>
  C9 as stated fails: the pack reader does not reject the reserved type code 5, and the
  object stays in the tree after the resolver has run.
\<close>

theorem reserved_type_counterexample:
  "\<forall>heap.
     unpack_objects sha1_examples inflate_examples (example_connection \<lparr> response := reserved_type_pack \<rparr>)
       = Inr (example_connection
                \<lparr> object := [reserved_type_object], Objects := [reserved_type_object],
                  response := reserved_type_pack \<rparr>) \<and>
     apply_deltas sha1_examples heap
       (example_connection
          \<lparr> object := [reserved_type_object], Objects := [reserved_type_object],
            response := reserved_type_pack \<rparr>)
       = Some (Inr (example_connection
          \<lparr> object := [reserved_type_object], Objects := [reserved_type_object],
            response := reserved_type_pack \<rparr>)) \<and>
     RB_FIND sha
       (Objects (example_connection
          \<lparr> object := [reserved_type_object], Objects := [reserved_type_object],
            response := reserved_type_pack \<rparr>))
       ''e8d22f6cceff87297f220e8c7542585d2fd89781'' = Some reserved_type_object \<and>
     type reserved_type_object = 5 \<and>
     type reserved_type_object \<notin> {1, 2, 3, 4}"
  by (simp add: eval_rules unpack_eval resolver_eval sha_values example_connection_def
        reserved_type_pack_def reserved_type_object_def)

theorem store_object_idempotent_witness:
  "RB_FIND sha
     (Objects (store_object sha1_examples \<lparr> object = [], Objects = [] \<rparr> 3 [0x41, 0x41, 0x41, 0x41] 4 22 0 None))
     (calculate_object_sha sha1_examples [0x41, 0x41, 0x41, 0x41] 4 3) \<noteq> None \<and>
   store_object sha1_examples
     (store_object sha1_examples \<lparr> object = [], Objects = [] \<rparr> 3 [0x41, 0x41, 0x41, 0x41] 4 22 0 None)
     3 [0x41, 0x41, 0x41, 0x41] 4 35 0 None
   = store_object sha1_examples \<lparr> object = [], Objects = [] \<rparr> 3 [0x41, 0x41, 0x41, 0x41] 4 22 0 None \<and>
   length (object (store_object sha1_examples \<lparr> object = [], Objects = [] \<rparr> 3 [0x41, 0x41, 0x41, 0x41] 4 22 0 None))
   = 1"
proof -
  have h: "RB_FIND sha
     (Objects (store_object sha1_examples \<lparr> object = [], Objects = [] \<rparr> 3 [0x41, 0x41, 0x41, 0x41] 4 22 0 None))
     (calculate_object_sha sha1_examples [0x41, 0x41, 0x41, 0x41] 4 3) \<noteq> None"
    by (simp add: eval_rules store_object_def sha_values)
  have l: "length (object (store_object sha1_examples \<lparr> object = [], Objects = [] \<rparr> 3 [0x41, 0x41, 0x41, 0x41] 4 22 0 None))
   = 1"
    by (simp add: eval_rules store_object_def sha_values)
  from store_object_idempotent [OF h, of 35 0 None] h l show ?thesis
    by blast
qed


lemma legible_base:
  "legible_sha [0xa9, 0xa2, 0x2e, 0x66, 0xdb, 0xef, 0x55, 0xa4, 0xbf, 0xba,
                0x52, 0x8d, 0xac, 0xaa, 0x22, 0x53, 0x14, 0x5d, 0xc4, 0x4d]
   = ''a9a22e66dbef55a4bfba528dacaa2253145dc44d''"
  by (simp add: eval_rules legible_sha_def fmt_02x_def hex_digit_def char_of_def)

lemma unpack_ref_delta:
  "unpack_objects sha1_examples inflate_examples (example_connection \<lparr> response := ref_delta_pack \<rparr>)
   = Inr (example_connection
            \<lparr> object := ref_delta_objects, Objects := [ref_delta_objects ! 0],
              response := ref_delta_pack \<rparr>)"
  by (simp add: eval_rules unpack_eval sha_values legible_base example_connection_def ref_delta_pack_def
        ref_delta_objects_def)

theorem ref_delta_base_is_looked_up_by_own_checksum_witness:
  "\<forall>heap.
     type (ref_delta_objects ! 1) = 7 \<and>
     ref_delta_sha (ref_delta_objects ! 1) = Some ''a9a22e66dbef55a4bfba528dacaa2253145dc44d'' \<and>
     RB_FIND sha [ref_delta_objects ! 0] ''a9a22e66dbef55a4bfba528dacaa2253145dc44d''
       = Some (ref_delta_objects ! 0) \<and>
     RB_FIND sha [ref_delta_objects ! 0] (sha (ref_delta_objects ! 1)) = None \<and>
     apply_deltas_body sha1_examples heap 1
       (example_connection
          \<lparr> object := ref_delta_objects, Objects := [ref_delta_objects ! 0],
            response := ref_delta_pack \<rparr>, [], 0) = Inl Cant_find_base \<and>
     apply_deltas sha1_examples heap
       (example_connection
          \<lparr> object := ref_delta_objects, Objects := [ref_delta_objects ! 0],
            response := ref_delta_pack \<rparr>) = Some (Inl Cant_find_base)"
proof
  fix heap :: "nat \<Rightarrow> byte"
  let ?s = "example_connection
          \<lparr> object := ref_delta_objects, Objects := [ref_delta_objects ! 0],
            response := ref_delta_pack \<rparr>"
  have t: "type (object ?s ! 1) = 7"
    by (simp add: ref_delta_objects_def)
  have n: "RB_FIND sha (Objects ?s) (sha (object ?s ! 1)) = None"
    by (simp add: ref_delta_objects_def)
  have r: "ref_delta_sha (ref_delta_objects ! 1) = Some ''a9a22e66dbef55a4bfba528dacaa2253145dc44d''"
    by (simp add: ref_delta_objects_def)
  have b: "RB_FIND sha [ref_delta_objects ! 0] ''a9a22e66dbef55a4bfba528dacaa2253145dc44d''
       = Some (ref_delta_objects ! 0)"
    by (simp add: ref_delta_objects_def)
  have w: "apply_deltas sha1_examples heap ?s = Some (Inl Cant_find_base)"
    by (simp add: eval_rules resolver_eval example_connection_def ref_delta_objects_def)
  from ref_delta_base_is_looked_up_by_own_checksum [OF t n, of sha1_examples heap "[]" 0] t n r b w
  show "type (ref_delta_objects ! 1) = 7 \<and>
     ref_delta_sha (ref_delta_objects ! 1) = Some ''a9a22e66dbef55a4bfba528dacaa2253145dc44d'' \<and>
     RB_FIND sha [ref_delta_objects ! 0] ''a9a22e66dbef55a4bfba528dacaa2253145dc44d''
       = Some (ref_delta_objects ! 0) \<and>
     RB_FIND sha [ref_delta_objects ! 0] (sha (ref_delta_objects ! 1)) = None \<and>
     apply_deltas_body sha1_examples heap 1 (?s, [], 0) = Inl Cant_find_base \<and>
     apply_deltas sha1_examples heap ?s = Some (Inl Cant_find_base)"
    by simp
qed



text \<open>
  C5 as stated fails: \<open>wrong_source_size_delta\<close> declares a source of 9 bytes and is
  applied to a base of 4 bytes without an error.
\<close>

theorem wrong_source_size_counterexample:
  "\<forall>heap.
     unpack_variable_length_integer (buffer wrong_source_size_delta) 0 = Inr (9, 1) \<and>
     length [0x41, 0x41, 0x41, 0x41 :: byte] = 4 \<and>
     apply_delta heap wrong_source_size_delta [0x41, 0x41, 0x41, 0x41] []
       = Inr ([0x41, 0x41, 0x41, 0x41], [0x41, 0x41, 0x41, 0x41], 4)"
  by (simp add: eval_rules delta_eval wrong_source_size_delta_def)

theorem source_size_is_not_checked_witness:
  "\<forall>heap.
     unpack_variable_length_integer (buffer wrong_source_size_delta) 0 = Inr (9, 1) \<and>
     unpack_variable_length_integer (buffer (wrong_source_size_delta \<lparr> buffer := [0x04, 0x04, 0x90, 0x04] \<rparr>)) 0
       = Inr (4, 1) \<and>
     drop 1 (buffer (wrong_source_size_delta \<lparr> buffer := [0x04, 0x04, 0x90, 0x04] \<rparr>))
       = drop 1 (buffer wrong_source_size_delta) \<and>
     apply_delta heap wrong_source_size_delta [0x41, 0x41, 0x41, 0x41] []
       = apply_delta heap (wrong_source_size_delta \<lparr> buffer := [0x04, 0x04, 0x90, 0x04] \<rparr>)
           [0x41, 0x41, 0x41, 0x41] [] \<and>
     apply_delta heap wrong_source_size_delta [0x41, 0x41, 0x41, 0x41] []
       = Inr ([0x41, 0x41, 0x41, 0x41], [0x41, 0x41, 0x41, 0x41], 4) \<and>
     (\<exists>merge_buffer''.
        apply_delta heap wrong_source_size_delta ([0x41, 0x41, 0x41, 0x41] @ [0x5a, 0x5a]) []
          = Inr (merge_buffer'', [0x41, 0x41, 0x41, 0x41], 4) \<and>
        take (unat (4 :: 32 word)) merge_buffer'' = take (unat (4 :: 32 word)) [0x41, 0x41, 0x41, 0x41])"
proof
  fix heap :: "nat \<Rightarrow> byte"
  let ?d = "wrong_source_size_delta \<lparr> buffer := [0x04, 0x04, 0x90, 0x04] \<rparr>"
  have h1: "unpack_variable_length_integer (buffer wrong_source_size_delta) 0 = Inr (9, 1)"
    by (simp add: eval_rules delta_eval wrong_source_size_delta_def)
  have h2: "unpack_variable_length_integer (buffer ?d) 0 = Inr (4, 1)"
    by (simp add: eval_rules delta_eval wrong_source_size_delta_def)
  have h3: "drop 1 (buffer ?d) = drop 1 (buffer wrong_source_size_delta)"
    by (simp add: wrong_source_size_delta_def)
  have h4: "data_size ?d = data_size wrong_source_size_delta"
    by simp
  have a: "apply_delta heap wrong_source_size_delta [0x41, 0x41, 0x41, 0x41] []
       = Inr ([0x41, 0x41, 0x41, 0x41], [0x41, 0x41, 0x41, 0x41], 4)"
    by (simp add: eval_rules delta_eval wrong_source_size_delta_def)
  from source_size_is_not_checked [where delta = wrong_source_size_delta and delta' = ?d
      and old_file_size = 9 and old_file_size' = 4 and ?p1.0 = 1 and heap = heap
      and merge_buffer = "[0x41, 0x41, 0x41, 0x41]" and layer_buffer = "[]"
      and merge_buffer' = "[0x41, 0x41, 0x41, 0x41]" and layer_buffer' = "[0x41, 0x41, 0x41, 0x41]"
      and new_file_size = 4 and extra = "[0x5a, 0x5a]"] h1 h2 h3 h4 a
  have c: "apply_delta heap ?d [0x41, 0x41, 0x41, 0x41] []
         = apply_delta heap wrong_source_size_delta [0x41, 0x41, 0x41, 0x41] []"
    and e: "\<exists>merge_buffer''.
        apply_delta heap wrong_source_size_delta ([0x41, 0x41, 0x41, 0x41] @ [0x5a, 0x5a]) []
          = Inr (merge_buffer'', [0x41, 0x41, 0x41, 0x41], 4) \<and>
        take (unat (4 :: 32 word)) merge_buffer'' = take (unat (4 :: 32 word)) [0x41, 0x41, 0x41, 0x41]"
    by blast+
  from h1 h2 h3 a c e
  show "unpack_variable_length_integer (buffer wrong_source_size_delta) 0 = Inr (9, 1) \<and>
     unpack_variable_length_integer (buffer ?d) 0 = Inr (4, 1) \<and>
     drop 1 (buffer ?d) = drop 1 (buffer wrong_source_size_delta) \<and>
     apply_delta heap wrong_source_size_delta [0x41, 0x41, 0x41, 0x41] []
       = apply_delta heap ?d [0x41, 0x41, 0x41, 0x41] [] \<and>
     apply_delta heap wrong_source_size_delta [0x41, 0x41, 0x41, 0x41] []
       = Inr ([0x41, 0x41, 0x41, 0x41], [0x41, 0x41, 0x41, 0x41], 4) \<and>
     (\<exists>merge_buffer''.
        apply_delta heap wrong_source_size_delta ([0x41, 0x41, 0x41, 0x41] @ [0x5a, 0x5a]) []
          = Inr (merge_buffer'', [0x41, 0x41, 0x41, 0x41], 4) \<and>
        take (unat (4 :: 32 word)) merge_buffer'' = take (unat (4 :: 32 word)) [0x41, 0x41, 0x41, 0x41])"
    by (intro conjI) simp_all
qed

text \<open>
  C6 as stated fails: the instruction byte 0 of \<open>zero_instruction_delta\<close> is passed
  over and the delta is applied.
\<close>

theorem zero_instruction_counterexample:
  "\<forall>heap.
     buffer zero_instruction_delta ! 2 = 0 \<and>
     apply_delta heap zero_instruction_delta [0x41, 0x41, 0x41, 0x41] []
       = Inr ([0x41, 0x41, 0x41, 0x41], [0x41, 0x41, 0x41, 0x41], 4)"
  by (simp add: eval_rules delta_eval zero_instruction_delta_def)

theorem zero_instruction_is_empty_insert_witness:
  "2 < data_size zero_instruction_delta \<and>
   2 < length (buffer zero_instruction_delta) \<and>
   buffer zero_instruction_delta ! 2 = 0 \<and>
   (0 :: 32 word) \<le> 4 \<and>
   unat (0 :: 32 word) \<le> length [0, 0, 0, 0 :: byte] \<and>
   decode_instruction (buffer zero_instruction_delta) 2 = Inr (From_delta_buffer, 2 + 1, 0, 2 + 1) \<and>
   delta_instructions zero_instruction_delta [0x41, 0x41, 0x41, 0x41] [0, 0, 0, 0] 4 2 0
     = delta_instructions zero_instruction_delta [0x41, 0x41, 0x41, 0x41] [0, 0, 0, 0] 4 (2 + 1) 0 \<and>
   delta_instructions zero_instruction_delta [0x41, 0x41, 0x41, 0x41] [0, 0, 0, 0] 4 2 0
     = Inr ([0x41, 0x41, 0x41, 0x41], 4)"
proof -
  have h1: "2 < data_size zero_instruction_delta"
    by (simp add: zero_instruction_delta_def)
  have h2: "2 < length (buffer zero_instruction_delta)"
    by (simp add: zero_instruction_delta_def)
  have h3: "buffer zero_instruction_delta ! 2 = 0"
    by (simp add: zero_instruction_delta_def)
  have h4: "(0 :: 32 word) \<le> 4"
    by simp
  have h5: "unat (0 :: 32 word) \<le> length [0, 0, 0, 0 :: byte]"
    by simp
  have r: "delta_instructions zero_instruction_delta [0x41, 0x41, 0x41, 0x41] [0, 0, 0, 0] 4 2 0
     = Inr ([0x41, 0x41, 0x41, 0x41], 4)"
    by (simp add: eval_rules delta_eval zero_instruction_delta_def)
  from zero_instruction_is_empty_insert [OF h1 h2 h3 h4 h5, of "[0x41, 0x41, 0x41, 0x41]"] h1 h2 h3 h4 h5 r
  show ?thesis
    by blast
qed

end
